theory Spec2Isabelle
  imports Main
begin

section \<open>JavaScript values, exceptions and asynchronous actions\<close>

text \<open>
  The server actions of the repository (\<^verbatim>\<open>lib/actions/user.actions.ts\<close>, kept as
  \<^verbatim>\<open>src/unnamed/part_001\<close>, and \<^verbatim>\<open>src/lib/actions/dwolla.actions.ts\<close>) are sequences of
  calls to three SDK clients (Plaid, Dwolla, Appwrite) wrapped in \<^verbatim>\<open>try { ... } catch\<close>.
  An exception is either an \<^verbatim>\<open>Error\<close> thrown by a \<^verbatim>\<open>throw new Error(msg)\<close> statement of
  the actions themselves (\<open>JsError msg\<close>) or an error raised inside an SDK client or a
  helper (\<open>ServiceError msg\<close>).
\<close>

datatype exn = JsError string | ServiceError string

text \<open>A value that may be \<^verbatim>\<open>null\<close> or \<^verbatim>\<open>undefined\<close>.\<close>

datatype 'a nullable = Null | Undefined | Value 'a

text \<open>JavaScript truthiness of a possibly absent string: the empty string is falsy.\<close>

fun truthy :: "string nullable \<Rightarrow> bool" where
  "truthy (Value s) = (s \<noteq> [])"
| "truthy Null = False"
| "truthy Undefined = False"

text \<open>Request bodies and the untyped (\<^verbatim>\<open>any\<close>) values of the Dwolla client.\<close>

datatype json = JUndefined | JNull | JString string | JObject "(string \<times> json) list"

section \<open>Data model\<close>

text \<open>\<^verbatim>\<open>response.data\<close> of \<^verbatim>\<open>plaidClient.itemPublicTokenExchange\<close>.\<close>

record exchange_data =
  access_token :: string
  item_id :: string

text \<open>One entry of \<^verbatim>\<open>accountsResponse.data.accounts\<close>.\<close>

record account =
  account_id :: string
  name :: string

text \<open>\<^verbatim>\<open>ProcessorTokenCreateRequest\<close>.\<close>

record processor_request =
  req_access_token :: string
  req_account_id :: string
  processor :: string

text \<open>The \<^verbatim>\<open>User\<close> document: \<^verbatim>\<open>$id\<close>, \<^verbatim>\<open>userId\<close> and the fields the actions read.\<close>

record user =
  user_dollar_id :: string
  user_userId :: string
  firstName :: string
  lastName :: string
  dwollaCustomerId :: string

text \<open>\<^verbatim>\<open>createBankAccountProps\<close>, and the stored document: the same fields and \<^verbatim>\<open>$id\<close>.\<close>

record createBankAccountProps =
  userId :: string
  bankId :: string
  accountId :: string
  accessToken :: string
  fundingSourceUrl :: string
  shareableId :: string

record bank_document = createBankAccountProps +
  bank_dollar_id :: string

text \<open>The result of \<^verbatim>\<open>database.listDocuments\<close>.\<close>

record 'd document_list =
  total :: nat
  documents :: "'d list"

text \<open>What the actions read of a Dwolla response: \<^verbatim>\<open>res.headers.get("location")\<close>
  (a string or \<^verbatim>\<open>null\<close>) and \<^verbatim>\<open>res.body._links\<close>.\<close>

record dwolla_response =
  header_location :: "string option"
  body_links :: json

text \<open>\<^verbatim>\<open>CreateFundingSourceOptions\<close>; \<^verbatim>\<open>opt_links\<close> is its optional field \<^verbatim>\<open>_links\<close>.\<close>

record CreateFundingSourceOptions =
  customerId :: string
  fundingSourceName :: string
  plaidToken :: string
  opt_links :: json

text \<open>The completion marker \<^verbatim>\<open>{ publicTokenExchange: "complete" }\<close>.\<close>

record exchange_result =
  publicTokenExchange :: string

section \<open>The world outside the actions\<close>

text \<open>Every request an action sends to a service, in the order sent.\<close>

datatype request =
    PlaidItemPublicTokenExchange string
  | PlaidAccountsGet string
  | PlaidProcessorTokenCreate processor_request
  | DwollaPost string json
  | AppwriteCreateAdminClient
  | AppwriteListDocuments string string string
  | AppwriteCreateDocument string createBankAccountProps
  | RevalidatePath string

text \<open>
  The world holds the two Appwrite collections and the log of requests sent so far.
\<close>

record world =
  bank_collection :: "bank_document list"
  user_collection :: "user list"
  requests :: "request list"

text \<open>
  The services are parameters: what each call answers (or throws) in a given world.
  \<^verbatim>\<open>encryptId\<close> is the helper of \<^verbatim>\<open>lib/utils\<close>, which is not among the sources, and is
  a parameter as well.
\<close>

record env =
  itemPublicTokenExchange :: "world \<Rightarrow> string \<Rightarrow> string + exchange_data"
  accountsGet :: "world \<Rightarrow> string \<Rightarrow> string + account list"
  processorTokenCreate :: "world \<Rightarrow> processor_request \<Rightarrow> string + string"
  dwolla_post :: "world \<Rightarrow> string \<Rightarrow> json \<Rightarrow> string + dwolla_response"
  createAdminClient_throws :: "world \<Rightarrow> string option"
  listDocuments_throws :: "world \<Rightarrow> string option"
  createDocument_throws :: "world \<Rightarrow> string option"
  ID_unique :: "world \<Rightarrow> string"
  encryptId :: "string \<Rightarrow> string + string"

text \<open>The answer of a service as the outcome of the call: \<open>Inl msg\<close> is an error raised.\<close>

definition raised :: "string + 'a \<Rightarrow> exn + 'a" where
  "raised r = (case r of Inl msg \<Rightarrow> Inl (ServiceError msg) | Inr x \<Rightarrow> Inr x)"

definition raised_opt :: "string option \<Rightarrow> exn + unit" where
  "raised_opt r = (case r of Some msg \<Rightarrow> Inl (ServiceError msg) | None \<Rightarrow> Inr ())"

text \<open>An action runs in a world and either throws or returns, leaving a new world.\<close>

type_synonym 'a action = "world \<Rightarrow> (exn + 'a) \<times> world"

definition returns :: "'a \<Rightarrow> 'a action" where
  "returns x = (\<lambda>w. (Inr x, w))"

definition throws :: "exn \<Rightarrow> 'a action" where
  "throws e = (\<lambda>w. (Inl e, w))"

text \<open>\<^verbatim>\<open>const x = await m; f(x)\<close>: an exception of \<open>m\<close> skips \<open>f\<close>.\<close>

definition then_do :: "'a action \<Rightarrow> ('a \<Rightarrow> 'b action) \<Rightarrow> 'b action" where
  "then_do m f = (\<lambda>w. case m w of (Inl e, w') \<Rightarrow> (Inl e, w') | (Inr x, w') \<Rightarrow> f x w')"

text \<open>\<^verbatim>\<open>try { m } catch (error) { h(error) }\<close>.\<close>

definition try_catch :: "'a action \<Rightarrow> (exn \<Rightarrow> 'a action) \<Rightarrow> 'a action" where
  "try_catch m h = (\<lambda>w. case m w of (Inl e, w') \<Rightarrow> h e w' | (Inr x, w') \<Rightarrow> (Inr x, w'))"

definition record_request :: "request \<Rightarrow> world \<Rightarrow> world" where
  "record_request r w = w\<lparr>requests := requests w @ [r]\<rparr>"

text \<open>A call of a helper that touches no service.\<close>

definition pure_call :: "string + 'a \<Rightarrow> 'a action" where
  "pure_call r = (\<lambda>w. (raised r, w))"

subsection \<open>The SDK calls\<close>

definition plaidClient_itemPublicTokenExchange :: "env \<Rightarrow> string \<Rightarrow> exchange_data action" where
  "plaidClient_itemPublicTokenExchange E public_token =
     (\<lambda>w. (raised (itemPublicTokenExchange E w public_token),
            record_request (PlaidItemPublicTokenExchange public_token) w))"

definition plaidClient_accountsGet :: "env \<Rightarrow> string \<Rightarrow> account list action" where
  "plaidClient_accountsGet E token =
     (\<lambda>w. (raised (accountsGet E w token), record_request (PlaidAccountsGet token) w))"

definition plaidClient_processorTokenCreate :: "env \<Rightarrow> processor_request \<Rightarrow> string action" where
  "plaidClient_processorTokenCreate E req =
     (\<lambda>w. (raised (processorTokenCreate E w req), record_request (PlaidProcessorTokenCreate req) w))"

definition dwollaClient_post :: "env \<Rightarrow> string \<Rightarrow> json \<Rightarrow> dwolla_response action" where
  "dwollaClient_post E path body =
     (\<lambda>w. (raised (dwolla_post E w path body), record_request (DwollaPost path body) w))"

definition createAdminClient :: "env \<Rightarrow> unit action" where
  "createAdminClient E =
     (\<lambda>w. (raised_opt (createAdminClient_throws E w),
            record_request AppwriteCreateAdminClient w))"

definition revalidatePath :: "string \<Rightarrow> unit action" where
  "revalidatePath path = (\<lambda>w. (Inr (), record_request (RevalidatePath path) w))"

text \<open>The collection identifiers, read from the process environment in the source.\<close>

definition USER_COLLECTION_ID :: string where
  "USER_COLLECTION_ID = ''APPWRITE_USER_COLLECTION_ID''"

definition BANK_COLLECTION_ID :: string where
  "BANK_COLLECTION_ID = ''APPWRITE_BANK_COLLECTION_ID''"

text \<open>
  \<^verbatim>\<open>database.createDocument(DATABASE_ID, BANK_COLLECTION_ID, ID.unique(), data)\<close>: when the
  call does not throw, the document (the data and its new \<^verbatim>\<open>$id\<close>) is stored and returned;
  when it throws, nothing is stored.
\<close>

definition database_createDocument :: "env \<Rightarrow> createBankAccountProps \<Rightarrow> bank_document action" where
  "database_createDocument E data =
     (\<lambda>w. let w' = record_request (AppwriteCreateDocument BANK_COLLECTION_ID data) w in
        case createDocument_throws E w of
          Some msg \<Rightarrow> (Inl (ServiceError msg), w')
        | None \<Rightarrow>
            (let doc = \<lparr>userId = userId data, bankId = bankId data, accountId = accountId data,
                        accessToken = accessToken data, fundingSourceUrl = fundingSourceUrl data,
                        shareableId = shareableId data, bank_dollar_id = ID_unique E w\<rparr>
             in (Inr doc, w'\<lparr>bank_collection := bank_collection w' @ [doc]\<rparr>)))"

text \<open>The attributes of the two kinds of document that \<^verbatim>\<open>Query.equal\<close> is used with.\<close>

definition bank_attribute :: "string \<Rightarrow> bank_document \<Rightarrow> string" where
  "bank_attribute a d =
     (if a = ''$id'' then bank_dollar_id d
      else if a = ''userId'' then userId d
      else if a = ''accountId'' then accountId d
      else [])"

definition user_attribute :: "string \<Rightarrow> user \<Rightarrow> string" where
  "user_attribute a d =
     (if a = ''$id'' then user_dollar_id d
      else if a = ''userId'' then user_userId d
      else [])"

text \<open>
  \<^verbatim>\<open>database.listDocuments(DATABASE_ID, collection, [Query.equal(attribute, [v])])\<close>:
  the matching documents and their number.
\<close>

definition listDocuments_bank :: "env \<Rightarrow> string \<Rightarrow> string \<Rightarrow> bank_document document_list action" where
  "listDocuments_bank E attribute v =
     (\<lambda>w. let w' = record_request (AppwriteListDocuments BANK_COLLECTION_ID attribute v) w in
        case listDocuments_throws E w of
          Some msg \<Rightarrow> (Inl (ServiceError msg), w')
        | None \<Rightarrow>
            (let found = filter (\<lambda>d. bank_attribute attribute d = v) (bank_collection w)
             in (Inr \<lparr>total = length found, documents = found\<rparr>, w')))"

definition listDocuments_user :: "env \<Rightarrow> string \<Rightarrow> string \<Rightarrow> user document_list action" where
  "listDocuments_user E attribute v =
     (\<lambda>w. let w' = record_request (AppwriteListDocuments USER_COLLECTION_ID attribute v) w in
        case listDocuments_throws E w of
          Some msg \<Rightarrow> (Inl (ServiceError msg), w')
        | None \<Rightarrow>
            (let found = filter (\<lambda>d. user_attribute attribute d = v) (user_collection w)
             in (Inr \<lparr>total = length found, documents = found\<rparr>, w')))"

text \<open>
  Modelled from the spec: \<^verbatim>\<open>parseStringify\<close> of \<^verbatim>\<open>lib/utils\<close> is not among the sources.
  The spec describes what the accessors return as the stored record itself and the
  result of linking as the completion marker, so on the plain data modelled here the
  helper returns its argument.
\<close>

definition parseStringify :: "'a \<Rightarrow> 'a" where
  "parseStringify v = v"

text \<open>\<^verbatim>\<open>res.headers.get("location") || undefined\<close>.\<close>

fun or_undefined :: "string option \<Rightarrow> string nullable" where
  "or_undefined None = Undefined"
| "or_undefined (Some s) = (if s = [] then Undefined else Value s)"

section \<open>dwolla.actions\<close>

definition createFundingSource :: "env \<Rightarrow> CreateFundingSourceOptions \<Rightarrow> string nullable action" where
  "createFundingSource E options =
     try_catch
       (then_do (dwollaClient_post E (''customers/'' @ customerId options @ ''/funding-sources'')
                   (JObject [(''name'', JString (fundingSourceName options)),
                             (''plaidToken'', JString (plaidToken options))]))
          (\<lambda>res. returns (or_undefined (header_location res))))
       (\<lambda>err. returns Undefined)"

definition createOnDemandAuthorization :: "env \<Rightarrow> json action" where
  "createOnDemandAuthorization E =
     try_catch
       (then_do (dwollaClient_post E ''on-demand-authorizations'' JUndefined)
          (\<lambda>onDemandAuthorization.
             let authLink = body_links onDemandAuthorization in returns authLink))
       (\<lambda>err. returns JUndefined)"

definition createDwollaCustomer :: "env \<Rightarrow> json \<Rightarrow> string nullable action" where
  "createDwollaCustomer E newCustomer =
     try_catch
       (then_do (dwollaClient_post E ''customers'' newCustomer)
          (\<lambda>res. returns (or_undefined (header_location res))))
       (\<lambda>err. returns Undefined)"

definition createTransfer :: "env \<Rightarrow> string \<Rightarrow> string \<Rightarrow> string \<Rightarrow> string nullable action" where
  "createTransfer E sourceFundingSourceUrl destinationFundingSourceUrl amount =
     try_catch
       (let requestBody =
          JObject [(''_links'', JObject [(''source'', JObject [(''href'', JString sourceFundingSourceUrl)]),
                                         (''destination'', JObject [(''href'', JString destinationFundingSourceUrl)])]),
                   (''amount'', JObject [(''currency'', JString ''USD''),
                                         (''value'', JString amount)])]
        in then_do (dwollaClient_post E ''transfers'' requestBody)
             (\<lambda>res. returns (or_undefined (header_location res))))
       (\<lambda>err. returns Undefined)"

definition addFundingSource :: "env \<Rightarrow> string \<Rightarrow> string \<Rightarrow> string \<Rightarrow> string nullable action" where
  "addFundingSource E dwollaCustomerId' processorToken bankName =
     try_catch
       (then_do (createOnDemandAuthorization E)
          (\<lambda>dwollaAuthLinks.
             let fundingSourceOptions =
                   \<lparr>customerId = dwollaCustomerId', fundingSourceName = bankName,
                    plaidToken = processorToken, opt_links = dwollaAuthLinks\<rparr>
             in createFundingSource E fundingSourceOptions))
       (\<lambda>err. returns Undefined)"

section \<open>user.actions\<close>

definition createBankAccount :: "env \<Rightarrow> createBankAccountProps \<Rightarrow> bank_document nullable action" where
  "createBankAccount E props =
     try_catch
       (then_do (createAdminClient E)
          (\<lambda>database.
             then_do (database_createDocument E
                        \<lparr>userId = userId props, bankId = bankId props,
                         accountId = accountId props, accessToken = accessToken props,
                         fundingSourceUrl = fundingSourceUrl props,
                         shareableId = shareableId props\<rparr>)
               (\<lambda>bankAccount. returns (Value (parseStringify bankAccount)))))
       (\<lambda>error. returns Null)"

text \<open>The \<^verbatim>\<open>try\<close> block of \<^verbatim>\<open>exchangePublicToken\<close>.\<close>

definition exchangePublicToken_try :: "env \<Rightarrow> string \<Rightarrow> user \<Rightarrow> exchange_result nullable action" where
  "exchangePublicToken_try E publicToken user =
     then_do (plaidClient_itemPublicTokenExchange E publicToken) (\<lambda>response.
     let accessToken' = access_token response; itemId = item_id response in
     then_do (plaidClient_accountsGet E accessToken') (\<lambda>accounts.
     case accounts of
       [] \<Rightarrow> throws (JsError ''Invalid account data received from Plaid.'')
     | accountData # _ \<Rightarrow>
     if account_id accountData = []
     then throws (JsError ''Invalid account data received from Plaid.'')
     else
     let request = \<lparr>req_access_token = accessToken', req_account_id = account_id accountData,
                    processor = ''dwolla''\<rparr> in
     then_do (plaidClient_processorTokenCreate E request) (\<lambda>processorToken.
     then_do (addFundingSource E (dwollaCustomerId user) processorToken (name accountData))
       (\<lambda>fundingSourceUrl'.
     if \<not> truthy fundingSourceUrl' then throws (JsError ''Error creating funding source'')
     else
     then_do (if account_id accountData \<noteq> []
              then then_do (pure_call (encryptId E (account_id accountData)))
                     (\<lambda>s. returns (Value s))
              else returns Null) (\<lambda>shareableId'.
     if \<not> truthy shareableId' then throws (JsError ''Failed to generate shareableId'')
     else
     then_do (createBankAccount E
                \<lparr>userId = user_dollar_id user, bankId = itemId,
                 accountId = account_id accountData, accessToken = accessToken',
                 fundingSourceUrl = (case fundingSourceUrl' of Value u \<Rightarrow> u | _ \<Rightarrow> []),
                 shareableId = (case shareableId' of Value s \<Rightarrow> s | _ \<Rightarrow> [])\<rparr>)
       (\<lambda>_.
     then_do (revalidatePath ''/'') (\<lambda>_.
     returns (Value (parseStringify \<lparr>publicTokenExchange = ''complete''\<rparr>)))))))))"

definition exchangePublicToken :: "env \<Rightarrow> string \<Rightarrow> user \<Rightarrow> exchange_result nullable action" where
  "exchangePublicToken E publicToken user =
     try_catch (exchangePublicToken_try E publicToken user) (\<lambda>error. returns Null)"

text \<open>
  The variant of the \<^verbatim>\<open>try\<close> block in which the derivation of \<^verbatim>\<open>shareableId\<close> has no
  \<^verbatim>\<open>null\<close> branch: \<^verbatim>\<open>const shareableId = encryptId(accountData.account_id)\<close>. It is the
  comparison point for the reachability of that branch and is otherwise the same text.
\<close>

definition exchangePublicToken_try_direct :: "env \<Rightarrow> string \<Rightarrow> user \<Rightarrow> exchange_result nullable action" where
  "exchangePublicToken_try_direct E publicToken user =
     then_do (plaidClient_itemPublicTokenExchange E publicToken) (\<lambda>response.
     let accessToken' = access_token response; itemId = item_id response in
     then_do (plaidClient_accountsGet E accessToken') (\<lambda>accounts.
     case accounts of
       [] \<Rightarrow> throws (JsError ''Invalid account data received from Plaid.'')
     | accountData # _ \<Rightarrow>
     if account_id accountData = []
     then throws (JsError ''Invalid account data received from Plaid.'')
     else
     let request = \<lparr>req_access_token = accessToken', req_account_id = account_id accountData,
                    processor = ''dwolla''\<rparr> in
     then_do (plaidClient_processorTokenCreate E request) (\<lambda>processorToken.
     then_do (addFundingSource E (dwollaCustomerId user) processorToken (name accountData))
       (\<lambda>fundingSourceUrl'.
     if \<not> truthy fundingSourceUrl' then throws (JsError ''Error creating funding source'')
     else
     then_do (then_do (pure_call (encryptId E (account_id accountData)))
                (\<lambda>s. returns (Value s))) (\<lambda>shareableId'.
     if \<not> truthy shareableId' then throws (JsError ''Failed to generate shareableId'')
     else
     then_do (createBankAccount E
                \<lparr>userId = user_dollar_id user, bankId = itemId,
                 accountId = account_id accountData, accessToken = accessToken',
                 fundingSourceUrl = (case fundingSourceUrl' of Value u \<Rightarrow> u | _ \<Rightarrow> []),
                 shareableId = (case shareableId' of Value s \<Rightarrow> s | _ \<Rightarrow> [])\<rparr>)
       (\<lambda>_.
     then_do (revalidatePath ''/'') (\<lambda>_.
     returns (Value (parseStringify \<lparr>publicTokenExchange = ''complete''\<rparr>)))))))))"

definition getUserInfo :: "env \<Rightarrow> string \<Rightarrow> user nullable action" where
  "getUserInfo E userId' =
     try_catch
       (then_do (createAdminClient E) (\<lambda>database.
        then_do (listDocuments_user E ''userId'' userId') (\<lambda>result.
        case documents result of
          [] \<Rightarrow> returns Null
        | d # _ \<Rightarrow> returns (Value (parseStringify d)))))
       (\<lambda>error. returns Null)"

definition getBanks :: "env \<Rightarrow> string \<Rightarrow> bank_document list nullable action" where
  "getBanks E userId' =
     try_catch
       (then_do (createAdminClient E) (\<lambda>database.
        then_do (listDocuments_bank E ''userId'' userId') (\<lambda>banks.
        returns (Value (parseStringify (documents banks))))))
       (\<lambda>error. returns Null)"

definition getBank :: "env \<Rightarrow> string \<Rightarrow> bank_document nullable action" where
  "getBank E documentId =
     try_catch
       (then_do (createAdminClient E) (\<lambda>database.
        then_do (listDocuments_bank E ''$id'' documentId) (\<lambda>bank.
        case documents bank of
          [] \<Rightarrow> returns Null
        | d # _ \<Rightarrow> returns (Value (parseStringify d)))))
       (\<lambda>error. returns Null)"

text \<open>
  In \<^verbatim>\<open>getBankByAccountId\<close> the read of \<^verbatim>\<open>bank.documents[0].$id\<close> throws a
  \<^verbatim>\<open>TypeError\<close> when the list is empty.
\<close>

definition getBankByAccountId :: "env \<Rightarrow> string \<Rightarrow> bank_document nullable action" where
  "getBankByAccountId E accountId' =
     try_catch
       (then_do (createAdminClient E) (\<lambda>database.
        then_do (listDocuments_bank E ''accountId'' accountId') (\<lambda>bank.
        if total bank \<noteq> 1 then returns Null
        else case documents bank of
               [] \<Rightarrow> throws (JsError ''TypeError'')
             | d # _ \<Rightarrow> returns (Value (parseStringify d)))))
       (\<lambda>error. returns Null)"

section \<open>A concrete scenario\<close>

text \<open>
  The scenario of the specification: the public token \<^verbatim>\<open>tok_valid\<close> is exchanged once for
  \<^verbatim>\<open>acc_1\<close> and \<^verbatim>\<open>item_1\<close> (a second exchange of the same token is refused), the account
  list is one checking account \<^verbatim>\<open>a1\<close>, the processor token is \<^verbatim>\<open>proc_1\<close>, the funding
  source is created at \<^verbatim>\<open>https://api.dwolla.com/funding-sources/fs1\<close>, a transfer at
  \<^verbatim>\<open>https://api.dwolla.com/transfers/t1\<close>. The stand-in for \<^verbatim>\<open>encryptId\<close> prefixes the
  account id.
\<close>

definition scenario :: env where
  "scenario =
     \<lparr>itemPublicTokenExchange =
        (\<lambda>w t. if PlaidItemPublicTokenExchange t \<in> set (requests w)
               then Inl ''INVALID_PUBLIC_TOKEN''
               else if t = ''tok_valid''
               then Inr \<lparr>access_token = ''acc_1'', item_id = ''item_1''\<rparr>
               else Inl ''INVALID_PUBLIC_TOKEN''),
      accountsGet =
        (\<lambda>w t. if t = ''acc_1'' then Inr [\<lparr>account_id = ''a1'', name = ''Checking''\<rparr>]
               else Inl ''INVALID_ACCESS_TOKEN''),
      processorTokenCreate = (\<lambda>w r. Inr ''proc_1''),
      dwolla_post =
        (\<lambda>w path body.
           if path = ''on-demand-authorizations''
           then Inr \<lparr>header_location = None,
                     body_links = JObject [(''self'', JObject [(''href'', JString ''auth_1'')])]\<rparr>
           else if path = ''transfers''
           then Inr \<lparr>header_location = Some ''https://api.dwolla.com/transfers/t1'',
                     body_links = JUndefined\<rparr>
           else if path = ''customers''
           then Inr \<lparr>header_location = Some ''https://api.dwolla.com/customers/cust_1'',
                     body_links = JUndefined\<rparr>
           else Inr \<lparr>header_location = Some ''https://api.dwolla.com/funding-sources/fs1'',
                     body_links = JUndefined\<rparr>),
      createAdminClient_throws = (\<lambda>w. None),
      listDocuments_throws = (\<lambda>w. None),
      createDocument_throws = (\<lambda>w. None),
      ID_unique = (\<lambda>w. ''doc_1''),
      encryptId = (\<lambda>s. Inr (''enc:'' @ s))\<rparr>"

definition alice :: user where
  "alice = \<lparr>user_dollar_id = ''u1'', user_userId = ''auth_u1'', firstName = ''Alice'',
            lastName = ''Doe'', dwollaCustomerId = ''cust_1''\<rparr>"

definition world0 :: world where
  "world0 = \<lparr>bank_collection = [], user_collection = [alice], requests = []\<rparr>"

text \<open>The bank record the scenario expects to be stored.\<close>

definition bank_a1 :: bank_document where
  "bank_a1 = \<lparr>userId = ''u1'', bankId = ''item_1'', accountId = ''a1'', accessToken = ''acc_1'',
              fundingSourceUrl = ''https://api.dwolla.com/funding-sources/fs1'',
              shareableId = ''enc:a1'', bank_dollar_id = ''doc_1''\<rparr>"

text \<open>The world after \<open>alice\<close> has linked the account of the scenario.\<close>

definition world1 :: world where
  "world1 = snd (exchangePublicToken scenario ''tok_valid'' alice world0)"

text \<open>A world in which two bank records have the account id \<^verbatim>\<open>a1\<close>.\<close>

definition world2 :: world where
  "world2 = \<lparr>bank_collection = [bank_a1, bank_a1\<lparr>bank_dollar_id := ''doc_2''\<rparr>],
             user_collection = [alice], requests = []\<rparr>"

text \<open>Variants of the scenario in which one service fails.\<close>

definition ledger_write_fails :: env where
  "ledger_write_fails =
     scenario\<lparr>createDocument_throws := (\<lambda>w. Some ''document_invalid_structure'')\<rparr>"

definition ledger_down :: env where
  "ledger_down = scenario\<lparr>createAdminClient_throws := (\<lambda>w. Some ''connection refused'')\<rparr>"

definition authorization_fails :: env where
  "authorization_fails = scenario\<lparr>dwolla_post :=
     (\<lambda>w path body.
        if path = ''on-demand-authorizations'' then Inl ''Unauthorized''
        else Inr \<lparr>header_location = Some ''https://api.dwolla.com/funding-sources/fs1'',
                  body_links = JUndefined\<rparr>)\<rparr>"

definition funding_source_fails :: env where
  "funding_source_fails = scenario\<lparr>dwolla_post :=
     (\<lambda>w path body.
        if path = ''on-demand-authorizations''
        then Inr \<lparr>header_location = None,
                  body_links = JObject [(''self'', JObject [(''href'', JString ''auth_1'')])]\<rparr>
        else Inl ''ValidationError'')\<rparr>"

definition dwolla_down :: env where
  "dwolla_down = scenario\<lparr>dwolla_post := (\<lambda>w path body. Inl ''ServiceUnavailable'')\<rparr>"

definition no_accounts :: env where
  "no_accounts = scenario\<lparr>accountsGet := (\<lambda>w t. Inr [])\<rparr>"

definition account_without_id :: env where
  "account_without_id =
     scenario\<lparr>accountsGet := (\<lambda>w t. Inr [\<lparr>account_id = [], name = ''Checking''\<rparr>])\<rparr>"

definition accounts_down :: env where
  "accounts_down = scenario\<lparr>accountsGet := (\<lambda>w t. Inl ''INTERNAL_SERVER_ERROR'')\<rparr>"

definition processor_down :: env where
  "processor_down = scenario\<lparr>processorTokenCreate := (\<lambda>w r. Inl ''INVALID_PRODUCT'')\<rparr>"

definition encrypt_throws :: env where
  "encrypt_throws = scenario\<lparr>encryptId := (\<lambda>s. Inl ''InvalidCharacterError'')\<rparr>"

definition encrypt_empty :: env where
  "encrypt_empty = scenario\<lparr>encryptId := (\<lambda>s. Inr [])\<rparr>"

section \<open>Reasoning about actions\<close>

lemmas action_defs =
  returns_def throws_def then_do_def try_catch_def record_request_def pure_call_def
  raised_def raised_opt_def

lemmas plaid_defs =
  plaidClient_itemPublicTokenExchange_def plaidClient_accountsGet_def
  plaidClient_processorTokenCreate_def revalidatePath_def parseStringify_def

lemmas sdk_defs =
  plaid_defs dwollaClient_post_def createAdminClient_def database_createDocument_def
  listDocuments_bank_def listDocuments_user_def BANK_COLLECTION_ID_def
  USER_COLLECTION_ID_def bank_attribute_def user_attribute_def

lemmas dwolla_defs =
  createFundingSource_def createOnDemandAuthorization_def createDwollaCustomer_def
  createTransfer_def addFundingSource_def

lemmas user_defs =
  createBankAccount_def exchangePublicToken_def exchangePublicToken_try_def
  getUserInfo_def getBanks_def getBank_def getBankByAccountId_def

lemmas scenario_defs =
  scenario_def alice_def world0_def bank_a1_def ledger_write_fails_def ledger_down_def
  authorization_fails_def funding_source_fails_def no_accounts_def account_without_id_def
  encrypt_empty_def world2_def dwolla_down_def accounts_down_def processor_down_def
  encrypt_throws_def

lemma then_do_Inl: "m w = (Inl e, w') \<Longrightarrow> then_do m f w = (Inl e, w')"
  by (simp add: then_do_def)

lemma try_catch_Inl: "m w = (Inl e, w') \<Longrightarrow> try_catch m h w = h e w'"
  by (simp add: try_catch_def)

text \<open>A \<^verbatim>\<open>catch\<close> block that returns a value lets no exception out.\<close>

lemma try_catch_returns_total: "\<exists>r. fst (try_catch m (\<lambda>e. returns d) w) = Inr r"
  by (cases "m w"; cases "fst (m w)") (auto simp: try_catch_def returns_def)

lemma try_catch_returns_absent:
  "fst (m w) = Inl e \<Longrightarrow> fst (try_catch m (\<lambda>e. returns d) w) = Inr d"
  by (cases "m w") (auto simp: try_catch_def returns_def)

lemma truthy_Value: "truthy x \<longleftrightarrow> (\<exists>s. x = Value s \<and> s \<noteq> [])"
  by (cases x) auto

subsection \<open>Funding-source provisioning\<close>

lemma addFundingSource_total: "\<exists>r. fst (addFundingSource E c p b w) = Inr r"
  unfolding addFundingSource_def by (rule try_catch_returns_total)

lemma addFundingSource_bank_collection:
  "bank_collection (snd (addFundingSource E c p b w)) = bank_collection w"
  by (auto simp: dwolla_defs dwollaClient_post_def action_defs Let_def
      split: prod.splits sum.splits)

text \<open>
  The two requests of \<open>addFundingSource\<close>, whatever the services answer: the body of the
  second has the fields \<^verbatim>\<open>name\<close> and \<^verbatim>\<open>plaidToken\<close> only.
\<close>

lemma addFundingSource_requests:
  "requests (snd (addFundingSource E c p b w)) = requests w @
     [DwollaPost ''on-demand-authorizations'' JUndefined,
      DwollaPost (''customers/'' @ c @ ''/funding-sources'')
        (JObject [(''name'', JString b), (''plaidToken'', JString p)])]"
  by (auto simp: dwolla_defs dwollaClient_post_def action_defs Let_def
      split: prod.splits sum.splits)

subsection \<open>The persistence step\<close>

lemma createBankAccount_total: "\<exists>r. fst (createBankAccount E props w) = Inr r"
  unfolding createBankAccount_def by (rule try_catch_returns_total)

text \<open>
  \<open>createBankAccount\<close> either stores one document with the given fields and returns
  it, or stores nothing and returns \<^verbatim>\<open>null\<close>.
\<close>

lemma createBankAccount_effect:
  assumes "createBankAccount E props w = (r, w')"
  shows "(r = Inr Null \<and> bank_collection w' = bank_collection w)
       \<or> (\<exists>doc. r = Inr (Value doc) \<and> bank_collection w' = bank_collection w @ [doc]
             \<and> userId doc = userId props \<and> bankId doc = bankId props
             \<and> accountId doc = accountId props \<and> accessToken doc = accessToken props
             \<and> fundingSourceUrl doc = fundingSourceUrl props
             \<and> shareableId doc = shareableId props)"
  using assms
  by (auto simp: createBankAccount_def createAdminClient_def database_createDocument_def
      parseStringify_def action_defs Let_def split: option.splits)

subsection \<open>The linking workflow\<close>

text \<open>
  When the \<^verbatim>\<open>try\<close> block of \<open>exchangePublicToken\<close> returns, every step before the
  persistence step has succeeded; the outcome \<open>stored\<close> of the persistence step itself
  is not looked at.
\<close>

lemma exchangePublicToken_try_returns:
  assumes "exchangePublicToken_try E publicToken u w = (Inr r, w')"
  shows "\<exists>response accountData others processorToken url w4 s stored w5.
           itemPublicTokenExchange E w publicToken = Inr response
         \<and> accountsGet E (record_request (PlaidItemPublicTokenExchange publicToken) w)
              (access_token response) = Inr (accountData # others)
         \<and> account_id accountData \<noteq> []
         \<and> addFundingSource E (dwollaCustomerId u) processorToken (name accountData)
              (record_request (PlaidProcessorTokenCreate
                 \<lparr>req_access_token = access_token response,
                  req_account_id = account_id accountData, processor = ''dwolla''\<rparr>)
               (record_request (PlaidAccountsGet (access_token response))
                 (record_request (PlaidItemPublicTokenExchange publicToken) w)))
              = (Inr (Value url), w4)
         \<and> url \<noteq> []
         \<and> encryptId E (account_id accountData) = Inr s \<and> s \<noteq> []
         \<and> createBankAccount E
              \<lparr>userId = user_dollar_id u, bankId = item_id response,
               accountId = account_id accountData, accessToken = access_token response,
               fundingSourceUrl = url, shareableId = s\<rparr> w4 = (Inr stored, w5)
         \<and> w' = record_request (RevalidatePath ''/'') w5
         \<and> r = Value \<lparr>publicTokenExchange = ''complete''\<rparr>"
  using assms
  apply (auto simp: exchangePublicToken_try_def plaid_defs action_defs Let_def truthy_Value
        split: sum.splits prod.splits list.splits if_splits)
  apply blast
  done

text \<open>
  What a call that returns the completion marker has done to the bank collection: at
  most one document is new, and a new document has the layout
  \<^verbatim>\<open>{userId, bankId (the item id), accountId, accessToken, fundingSourceUrl, shareableId}\<close>
  with \<^verbatim>\<open>shareableId = encryptId(accountId)\<close>.
\<close>

lemma linked_record_layout:
  assumes "exchangePublicToken E publicToken u w = (Inr (Value r), w')"
  shows "bank_collection w' = bank_collection w
       \<or> (\<exists>doc response accountData others.
             bank_collection w' = bank_collection w @ [doc]
           \<and> itemPublicTokenExchange E w publicToken = Inr response
           \<and> accountsGet E (record_request (PlaidItemPublicTokenExchange publicToken) w)
                (access_token response) = Inr (accountData # others)
           \<and> userId doc = user_dollar_id u
           \<and> bankId doc = item_id response
           \<and> accountId doc = account_id accountData
           \<and> accessToken doc = access_token response
           \<and> fundingSourceUrl doc \<noteq> []
           \<and> encryptId E (accountId doc) = Inr (shareableId doc))"
proof -
  have "exchangePublicToken_try E publicToken u w = (Inr (Value r), w')"
    using assms
    by (cases "exchangePublicToken_try E publicToken u w";
        cases "fst (exchangePublicToken_try E publicToken u w)")
       (auto simp: exchangePublicToken_def try_catch_def returns_def)
  from exchangePublicToken_try_returns [OF this]
  obtain response accountData others processorToken url w4 s stored w5 where
      ex: "itemPublicTokenExchange E w publicToken = Inr response"
    and ac: "accountsGet E (record_request (PlaidItemPublicTokenExchange publicToken) w)
               (access_token response) = Inr (accountData # others)"
    and fs: "addFundingSource E (dwollaCustomerId u) processorToken (name accountData)
              (record_request (PlaidProcessorTokenCreate
                 \<lparr>req_access_token = access_token response,
                  req_account_id = account_id accountData, processor = ''dwolla''\<rparr>)
               (record_request (PlaidAccountsGet (access_token response))
                 (record_request (PlaidItemPublicTokenExchange publicToken) w)))
              = (Inr (Value url), w4)"
    and url: "url \<noteq> []"
    and enc: "encryptId E (account_id accountData) = Inr s"
    and cb: "createBankAccount E
              \<lparr>userId = user_dollar_id u, bankId = item_id response,
               accountId = account_id accountData, accessToken = access_token response,
               fundingSourceUrl = url, shareableId = s\<rparr> w4 = (Inr stored, w5)"
    and w': "w' = record_request (RevalidatePath ''/'') w5"
    by blast
  have "w4 = snd (addFundingSource E (dwollaCustomerId u) processorToken (name accountData)
              (record_request (PlaidProcessorTokenCreate
                 \<lparr>req_access_token = access_token response,
                  req_account_id = account_id accountData, processor = ''dwolla''\<rparr>)
               (record_request (PlaidAccountsGet (access_token response))
                 (record_request (PlaidItemPublicTokenExchange publicToken) w))))"
    by (simp add: fs)
  then have w4: "bank_collection w4 = bank_collection w"
    by (simp add: addFundingSource_bank_collection record_request_def)
  have w5: "bank_collection w' = bank_collection w5"
    by (simp add: w' record_request_def)
  from createBankAccount_effect [OF cb]
  consider "bank_collection w5 = bank_collection w4"
    | doc where "bank_collection w5 = bank_collection w4 @ [doc]"
        "userId doc = user_dollar_id u" "bankId doc = item_id response"
        "accountId doc = account_id accountData" "accessToken doc = access_token response"
        "fundingSourceUrl doc = url" "shareableId doc = s"
    by auto
  then show ?thesis
  proof cases
    case 1
    then show ?thesis by (simp add: w4 w5)
  next
    case (2 doc)
    with ex ac url enc w4 w5 show ?thesis by auto
  qed
qed

subsection \<open>The scenario, evaluated\<close>

lemma scenario_links:
  "exchangePublicToken scenario ''tok_valid'' alice world0 =
     (Inr (Value \<lparr>publicTokenExchange = ''complete''\<rparr>),
      \<lparr>bank_collection = [bank_a1], user_collection = [alice],
       requests =
         [PlaidItemPublicTokenExchange ''tok_valid'', PlaidAccountsGet ''acc_1'',
          PlaidProcessorTokenCreate
            \<lparr>req_access_token = ''acc_1'', req_account_id = ''a1'', processor = ''dwolla''\<rparr>,
          DwollaPost ''on-demand-authorizations'' JUndefined,
          DwollaPost ''customers/cust_1/funding-sources''
            (JObject [(''name'', JString ''Checking''), (''plaidToken'', JString ''proc_1'')]),
          AppwriteCreateAdminClient,
          AppwriteCreateDocument BANK_COLLECTION_ID
            \<lparr>userId = ''u1'', bankId = ''item_1'', accountId = ''a1'', accessToken = ''acc_1'',
             fundingSourceUrl = ''https://api.dwolla.com/funding-sources/fs1'',
             shareableId = ''enc:a1''\<rparr>,
          RevalidatePath ''/'']\<rparr>)"
  by (simp add: user_defs dwolla_defs sdk_defs action_defs scenario_defs Let_def)

lemma world1_eq:
  "world1 =
      \<lparr>bank_collection = [bank_a1], user_collection = [alice],
       requests =
         [PlaidItemPublicTokenExchange ''tok_valid'', PlaidAccountsGet ''acc_1'',
          PlaidProcessorTokenCreate
            \<lparr>req_access_token = ''acc_1'', req_account_id = ''a1'', processor = ''dwolla''\<rparr>,
          DwollaPost ''on-demand-authorizations'' JUndefined,
          DwollaPost ''customers/cust_1/funding-sources''
            (JObject [(''name'', JString ''Checking''), (''plaidToken'', JString ''proc_1'')]),
          AppwriteCreateAdminClient,
          AppwriteCreateDocument BANK_COLLECTION_ID
            \<lparr>userId = ''u1'', bankId = ''item_1'', accountId = ''a1'', accessToken = ''acc_1'',
             fundingSourceUrl = ''https://api.dwolla.com/funding-sources/fs1'',
             shareableId = ''enc:a1''\<rparr>,
          RevalidatePath ''/'']\<rparr>"
  by (simp add: world1_def scenario_links)

section \<open>The linking workflow and its persistence step\<close>

text \<open>
  Claim C1. For every valid pair of public token and user on which
  \<open>exchangePublicToken\<close> succeeds, exactly one new bank record is created, with the
  fields \<^verbatim>\<open>userId\<close>, \<^verbatim>\<open>bankId\<close> (the item id), \<^verbatim>\<open>accountId\<close>, \<^verbatim>\<open>accessToken\<close>,
  \<^verbatim>\<open>fundingSourceUrl\<close>, \<^verbatim>\<open>shareableId\<close>, and its \<^verbatim>\<open>shareableId\<close> decodes back to the
  selected account's id.

  The code does not keep this: the result of \<open>createBankAccount\<close> is awaited and then
  dropped. In the scenario with a ledger whose \<^verbatim>\<open>createDocument\<close> throws, the call
  returns the completion marker and the bank collection has no new record. (Lemma
  \<open>linked_record_layout\<close> above is what does hold: at most one new record, of the stated
  layout.)
\<close>

theorem link_complete_without_record:
  "fst (exchangePublicToken ledger_write_fails ''tok_valid'' alice world0)
     = Inr (Value \<lparr>publicTokenExchange = ''complete''\<rparr>)
   \<and> bank_collection world0 = []
   \<and> bank_collection (snd (exchangePublicToken ledger_write_fails ''tok_valid'' alice world0)) = []"
  by (simp add: user_defs dwolla_defs sdk_defs action_defs scenario_defs Let_def)

text \<open>
  Claim C2. The write of the bank record is the durability point of linking:
  \<open>exchangePublicToken\<close> reports success (returns the completion marker and reaches the
  cache invalidation) only if the write of \<open>createBankAccount\<close> committed; a failure of
  the persistence step aborts the remaining steps and yields a failure result.

  The code does not keep this. With the ledger unreachable, \<open>createBankAccount\<close>
  returns \<^verbatim>\<open>null\<close>, and \<open>exchangePublicToken\<close> still invalidates the cache and returns
  the completion marker; nothing was stored.
\<close>

theorem success_reported_after_failed_write:
  "fst (createBankAccount ledger_down
          \<lparr>userId = ''u1'', bankId = ''item_1'', accountId = ''a1'', accessToken = ''acc_1'',
           fundingSourceUrl = ''https://api.dwolla.com/funding-sources/fs1'',
           shareableId = ''enc:a1''\<rparr> world0) = Inr Null
   \<and> fst (exchangePublicToken ledger_down ''tok_valid'' alice world0)
       = Inr (Value \<lparr>publicTokenExchange = ''complete''\<rparr>)
   \<and> last (requests (snd (exchangePublicToken ledger_down ''tok_valid'' alice world0)))
       = RevalidatePath ''/''
   \<and> bank_collection (snd (exchangePublicToken ledger_down ''tok_valid'' alice world0))
       = bank_collection world0"
  by (simp add: user_defs dwolla_defs sdk_defs action_defs scenario_defs Let_def)

section \<open>Funding-source provisioning\<close>

text \<open>
  Claim C3. For every call, \<open>addFundingSource\<close> first obtains a fresh on-demand
  authorization from the payment network, then creates the funding source with that
  authorization embedded in the creation request; if either sub-step (authorization
  or creation) fails, the whole provisioning step fails.

  The code does not keep this. When the authorization request throws,
  \<open>createOnDemandAuthorization\<close> returns \<^verbatim>\<open>undefined\<close>, \<open>addFundingSource\<close> goes on and
  returns the funding-source reference; and the body that \<open>createFundingSource\<close> posts
  has the fields \<^verbatim>\<open>name\<close> and \<^verbatim>\<open>plaidToken\<close> only (for every call, by
  \<open>addFundingSource_requests\<close>), although the options carry the authorization as
  \<^verbatim>\<open>_links\<close>.
\<close>

theorem funding_source_without_authorization:
  "fst (createOnDemandAuthorization authorization_fails world0) = Inr JUndefined
   \<and> fst (addFundingSource authorization_fails ''cust_1'' ''proc_1'' ''Checking'' world0)
       = Inr (Value ''https://api.dwolla.com/funding-sources/fs1'')
   \<and> requests (snd (addFundingSource authorization_fails ''cust_1'' ''proc_1'' ''Checking'' world0))
       = [DwollaPost ''on-demand-authorizations'' JUndefined,
          DwollaPost ''customers/cust_1/funding-sources''
            (JObject [(''name'', JString ''Checking''), (''plaidToken'', JString ''proc_1'')])]"
  by (simp add: dwolla_defs sdk_defs action_defs scenario_defs Let_def)

section \<open>Failures that stop the linking workflow\<close>

text \<open>
  Claim C4. For every execution of \<open>exchangePublicToken\<close> in which the account
  retrieval returns an empty list, or a first entry without an account id, the
  operation returns the failure signal \<^verbatim>\<open>null\<close>, no funding source is provisioned and
  no bank record is created: the only requests sent are the token exchange and the
  account retrieval.
\<close>

theorem no_account_stops_linking:
  assumes exchange: "itemPublicTokenExchange E w publicToken = Inr response"
    and accounts: "accountsGet E (record_request (PlaidItemPublicTokenExchange publicToken) w)
                     (access_token response) = Inr accounts"
    and none: "accounts = [] \<or> account_id (hd accounts) = []"
  shows "fst (exchangePublicToken E publicToken u w) = Inr Null
       \<and> bank_collection (snd (exchangePublicToken E publicToken u w)) = bank_collection w
       \<and> requests (snd (exchangePublicToken E publicToken u w))
           = requests w @ [PlaidItemPublicTokenExchange publicToken,
                           PlaidAccountsGet (access_token response)]"
proof -
  let ?w1 = "record_request (PlaidItemPublicTokenExchange publicToken) w"
  let ?w2 = "record_request (PlaidAccountsGet (access_token response)) ?w1"
  let ?err = "JsError ''Invalid account data received from Plaid.''"
  have s1: "plaidClient_itemPublicTokenExchange E publicToken w = (Inr response, ?w1)"
    using exchange by (simp add: plaidClient_itemPublicTokenExchange_def raised_def)
  have s2: "plaidClient_accountsGet E (access_token response) ?w1 = (Inr accounts, ?w2)"
    using accounts by (simp add: plaidClient_accountsGet_def raised_def)
  have "exchangePublicToken_try E publicToken u w = (Inl ?err, ?w2)"
    using none
    by (cases accounts)
       (simp_all add: exchangePublicToken_try_def then_do_def s1 s2 Let_def throws_def)
  then have "exchangePublicToken E publicToken u w = (Inr Null, ?w2)"
    by (simp add: exchangePublicToken_def try_catch_Inl returns_def)
  then show ?thesis
    by (simp add: record_request_def)
qed

theorem no_account_stops_linking_witness:
  "fst (exchangePublicToken no_accounts ''tok_valid'' alice world0) = Inr Null
   \<and> bank_collection (snd (exchangePublicToken no_accounts ''tok_valid'' alice world0)) = []
   \<and> requests (snd (exchangePublicToken no_accounts ''tok_valid'' alice world0))
       = [PlaidItemPublicTokenExchange ''tok_valid'', PlaidAccountsGet ''acc_1'']
   \<and> fst (exchangePublicToken account_without_id ''tok_valid'' alice world0) = Inr Null
   \<and> bank_collection (snd (exchangePublicToken account_without_id ''tok_valid'' alice world0)) = []
   \<and> requests (snd (exchangePublicToken account_without_id ''tok_valid'' alice world0))
       = [PlaidItemPublicTokenExchange ''tok_valid'', PlaidAccountsGet ''acc_1'']"
proof -
  let ?response = "\<lparr>access_token = ''acc_1'', item_id = ''item_1''\<rparr>"
  have e1: "itemPublicTokenExchange no_accounts world0 ''tok_valid'' = Inr ?response"
    by (simp add: scenario_defs)
  have a1: "accountsGet no_accounts (record_request (PlaidItemPublicTokenExchange ''tok_valid'') world0)
              (access_token ?response) = Inr []"
    by (simp add: scenario_defs)
  have e2: "itemPublicTokenExchange account_without_id world0 ''tok_valid'' = Inr ?response"
    by (simp add: scenario_defs)
  have a2: "accountsGet account_without_id
              (record_request (PlaidItemPublicTokenExchange ''tok_valid'') world0)
              (access_token ?response) = Inr [\<lparr>account_id = [], name = ''Checking''\<rparr>]"
    by (simp add: scenario_defs)
  from no_account_stops_linking [OF e1 a1, of alice]
       no_account_stops_linking [OF e2 a2, of alice]
  show ?thesis by (simp add: world0_def)
qed

text \<open>
  Claim C6. For every execution of \<open>exchangePublicToken\<close> in which the creation of the
  funding source fails (\<open>addFundingSource\<close> yields no funding-source reference) after the
  authorization was requested, no bank record is persisted: the workflow ends with
  \<^verbatim>\<open>null\<close> in the world that \<open>addFundingSource\<close> left, before the persistence step.
\<close>

theorem funding_source_failure_stops_linking:
  assumes exchange: "itemPublicTokenExchange E w publicToken = Inr response"
    and w1: "w1 = record_request (PlaidItemPublicTokenExchange publicToken) w"
    and accounts: "accountsGet E w1 (access_token response) = Inr (accountData # others)"
    and w2: "w2 = record_request (PlaidAccountsGet (access_token response)) w1"
    and has_id: "account_id accountData \<noteq> []"
    and request: "request = \<lparr>req_access_token = access_token response,
                   req_account_id = account_id accountData, processor = ''dwolla''\<rparr>"
    and token: "processorTokenCreate E w2 request = Inr processorToken"
    and w3: "w3 = record_request (PlaidProcessorTokenCreate request) w2"
    and funding: "addFundingSource E (dwollaCustomerId u) processorToken (name accountData) w3
                    = (Inr fundingSourceUrl', w4)"
    and failed: "\<not> truthy fundingSourceUrl'"
  shows "exchangePublicToken E publicToken u w = (Inr Null, w4)
       \<and> bank_collection w4 = bank_collection w
       \<and> requests w4 = requests w @
           [PlaidItemPublicTokenExchange publicToken, PlaidAccountsGet (access_token response),
            PlaidProcessorTokenCreate request,
            DwollaPost ''on-demand-authorizations'' JUndefined,
            DwollaPost (''customers/'' @ dwollaCustomerId u @ ''/funding-sources'')
              (JObject [(''name'', JString (name accountData)),
                        (''plaidToken'', JString processorToken)])]"
proof -
  let ?err = "JsError ''Error creating funding source''"
  have s1: "plaidClient_itemPublicTokenExchange E publicToken w = (Inr response, w1)"
    using exchange w1 by (simp add: plaidClient_itemPublicTokenExchange_def raised_def)
  have s2: "plaidClient_accountsGet E (access_token response) w1
              = (Inr (accountData # others), w2)"
    using accounts w2 by (simp add: plaidClient_accountsGet_def raised_def)
  have s3: "plaidClient_processorTokenCreate E request w2 = (Inr processorToken, w3)"
    using token w3 by (simp add: plaidClient_processorTokenCreate_def raised_def)
  have "exchangePublicToken_try E publicToken u w = (Inl ?err, w4)"
    using has_id failed
    by (simp add: exchangePublicToken_try_def then_do_def s1 s2
          Let_def request [symmetric] s3 funding throws_def)
  then have r: "exchangePublicToken E publicToken u w = (Inr Null, w4)"
    by (simp add: exchangePublicToken_def try_catch_Inl returns_def)
  have w4: "w4 = snd (addFundingSource E (dwollaCustomerId u) processorToken (name accountData) w3)"
    using funding by simp
  have b: "bank_collection w4 = bank_collection w"
    unfolding w4 addFundingSource_bank_collection by (simp add: w3 w2 w1 record_request_def)
  have q: "requests w4 = requests w @
           [PlaidItemPublicTokenExchange publicToken, PlaidAccountsGet (access_token response),
            PlaidProcessorTokenCreate request,
            DwollaPost ''on-demand-authorizations'' JUndefined,
            DwollaPost (''customers/'' @ dwollaCustomerId u @ ''/funding-sources'')
              (JObject [(''name'', JString (name accountData)),
                        (''plaidToken'', JString processorToken)])]"
    unfolding w4 addFundingSource_requests by (simp add: w3 w2 w1 record_request_def)
  from r b q show ?thesis by simp
qed

theorem funding_source_failure_stops_linking_witness:
  "fst (addFundingSource funding_source_fails ''cust_1'' ''proc_1'' ''Checking''
          \<lparr>bank_collection = [], user_collection = [alice],
           requests = [PlaidItemPublicTokenExchange ''tok_valid'', PlaidAccountsGet ''acc_1'',
             PlaidProcessorTokenCreate \<lparr>req_access_token = ''acc_1'', req_account_id = ''a1'',
               processor = ''dwolla''\<rparr>]\<rparr>) = Inr Undefined
   \<and> fst (exchangePublicToken funding_source_fails ''tok_valid'' alice world0) = Inr Null
   \<and> bank_collection (snd (exchangePublicToken funding_source_fails ''tok_valid'' alice world0)) = []
   \<and> requests (snd (exchangePublicToken funding_source_fails ''tok_valid'' alice world0))
       = [PlaidItemPublicTokenExchange ''tok_valid'', PlaidAccountsGet ''acc_1'',
          PlaidProcessorTokenCreate
            \<lparr>req_access_token = ''acc_1'', req_account_id = ''a1'', processor = ''dwolla''\<rparr>,
          DwollaPost ''on-demand-authorizations'' JUndefined,
          DwollaPost ''customers/cust_1/funding-sources''
            (JObject [(''name'', JString ''Checking''), (''plaidToken'', JString ''proc_1'')])]"
proof -
  let ?response = "\<lparr>access_token = ''acc_1'', item_id = ''item_1''\<rparr>"
  let ?accountData = "\<lparr>account_id = ''a1'', name = ''Checking''\<rparr>"
  let ?request = "\<lparr>req_access_token = access_token ?response,
                   req_account_id = account_id ?accountData, processor = ''dwolla''\<rparr>"
  let ?w1 = "record_request (PlaidItemPublicTokenExchange ''tok_valid'') world0"
  let ?w2 = "record_request (PlaidAccountsGet (access_token ?response)) ?w1"
  let ?w3 = "record_request (PlaidProcessorTokenCreate ?request) ?w2"
  let ?w4 = "snd (addFundingSource funding_source_fails (dwollaCustomerId alice) ''proc_1''
                (name ?accountData) ?w3)"
  have h1: "itemPublicTokenExchange funding_source_fails world0 ''tok_valid'' = Inr ?response"
    by (simp add: scenario_defs)
  have h2: "accountsGet funding_source_fails ?w1 (access_token ?response) = Inr (?accountData # [])"
    by (simp add: scenario_defs)
  have h3: "account_id ?accountData \<noteq> []"
    by simp
  have h4: "processorTokenCreate funding_source_fails ?w2 ?request = Inr ''proc_1''"
    by (simp add: scenario_defs)
  have h5: "addFundingSource funding_source_fails (dwollaCustomerId alice) ''proc_1''
              (name ?accountData) ?w3 = (Inr Undefined, ?w4)"
    by (simp add: dwolla_defs dwollaClient_post_def action_defs scenario_defs Let_def)
  have h6: "\<not> truthy Undefined"
    by simp
  from funding_source_failure_stops_linking [OF h1 refl h2 refl h3 refl h4 refl h5 h6] h5
  show ?thesis
    by (simp add: dwolla_defs dwollaClient_post_def action_defs scenario_defs Let_def)
qed

text \<open>
  Claim C8. For every execution of \<open>exchangePublicToken\<close> in which the token exchange
  fails (as it does for a public token that was already consumed), the operation
  returns the failure signal \<^verbatim>\<open>null\<close> and no bank record is created; no later step runs:
  the token exchange is the only request sent.
\<close>

theorem exchange_failure_stops_linking:
  assumes "itemPublicTokenExchange E w publicToken = Inl msg"
  shows "fst (exchangePublicToken E publicToken u w) = Inr Null
       \<and> bank_collection (snd (exchangePublicToken E publicToken u w)) = bank_collection w
       \<and> requests (snd (exchangePublicToken E publicToken u w))
           = requests w @ [PlaidItemPublicTokenExchange publicToken]"
proof -
  let ?w1 = "record_request (PlaidItemPublicTokenExchange publicToken) w"
  have "plaidClient_itemPublicTokenExchange E publicToken w = (Inl (ServiceError msg), ?w1)"
    using assms by (simp add: plaidClient_itemPublicTokenExchange_def raised_def)
  then have "exchangePublicToken_try E publicToken u w = (Inl (ServiceError msg), ?w1)"
    unfolding exchangePublicToken_try_def by (rule then_do_Inl)
  then have "exchangePublicToken E publicToken u w = (Inr Null, ?w1)"
    by (simp add: exchangePublicToken_def try_catch_Inl returns_def)
  then show ?thesis
    by (simp add: record_request_def)
qed

text \<open>
  The witness is the second use of the token of the scenario: in \<open>world1\<close> the token has
  been exchanged and the account is linked; the second call creates no second record.
\<close>

theorem exchange_failure_stops_linking_witness:
  "itemPublicTokenExchange scenario world1 ''tok_valid'' = Inl ''INVALID_PUBLIC_TOKEN''
   \<and> fst (exchangePublicToken scenario ''tok_valid'' alice world1) = Inr Null
   \<and> bank_collection (snd (exchangePublicToken scenario ''tok_valid'' alice world1)) = [bank_a1]
   \<and> requests (snd (exchangePublicToken scenario ''tok_valid'' alice world1))
       = requests world1 @ [PlaidItemPublicTokenExchange ''tok_valid'']"
proof -
  have h: "itemPublicTokenExchange scenario world1 ''tok_valid'' = Inl ''INVALID_PUBLIC_TOKEN''"
    by (simp add: world1_eq scenario_def)
  from exchange_failure_stops_linking [OF h, of alice] h
  show ?thesis by (simp add: world1_eq)
qed

text \<open>
  Claim C10. In \<open>exchangePublicToken\<close> the \<^verbatim>\<open>null\<close> branch of the derivation of
  \<^verbatim>\<open>shareableId\<close> is unreachable: every execution that reaches the step has a
  non-empty \<^verbatim>\<open>accountData.account_id\<close> (checked earlier), so the conditional always
  applies \<^verbatim>\<open>encryptId\<close>, and the error \<^verbatim>\<open>Failed to generate shareableId\<close> can only occur
  if \<^verbatim>\<open>encryptId\<close> itself returns an empty value.

  The \<^verbatim>\<open>try\<close> block is the same action as its variant without the \<^verbatim>\<open>null\<close> branch, and
  when it throws that error, \<^verbatim>\<open>encryptId\<close> has returned the empty string for the
  non-empty id of the selected account.
\<close>

theorem shareableId_null_branch_unreachable:
  "exchangePublicToken_try E publicToken u w = exchangePublicToken_try_direct E publicToken u w
   \<and> (fst (exchangePublicToken_try E publicToken u w)
         = Inl (JsError ''Failed to generate shareableId'')
        \<longrightarrow> (\<exists>response accountData others.
               itemPublicTokenExchange E w publicToken = Inr response
             \<and> accountsGet E (record_request (PlaidItemPublicTokenExchange publicToken) w)
                 (access_token response) = Inr (accountData # others)
             \<and> account_id accountData \<noteq> []
             \<and> encryptId E (account_id accountData) = Inr []))"
proof (intro conjI impI)
  show "exchangePublicToken_try E publicToken u w
          = exchangePublicToken_try_direct E publicToken u w"
    by (simp add: exchangePublicToken_try_def exchangePublicToken_try_direct_def cong: if_cong)
next
  assume "fst (exchangePublicToken_try E publicToken u w)
            = Inl (JsError ''Failed to generate shareableId'')"
  moreover have "\<And>c p b w' e w''. addFundingSource E c p b w' \<noteq> (Inl e, w'')"
    using addFundingSource_total by (metis fst_conv sum.distinct(1))
  moreover have "\<And>props w' e w''. createBankAccount E props w' \<noteq> (Inl e, w'')"
    using createBankAccount_total by (metis fst_conv sum.distinct(1))
  ultimately show "\<exists>response accountData others.
               itemPublicTokenExchange E w publicToken = Inr response
             \<and> accountsGet E (record_request (PlaidItemPublicTokenExchange publicToken) w)
                 (access_token response) = Inr (accountData # others)
             \<and> account_id accountData \<noteq> []
             \<and> encryptId E (account_id accountData) = Inr []"
    by (auto simp: exchangePublicToken_try_def plaid_defs action_defs Let_def
        split: sum.splits prod.splits list.splits if_splits)
qed

theorem shareableId_null_branch_unreachable_witness:
  "fst (exchangePublicToken_try encrypt_empty ''tok_valid'' alice world0)
     = Inl (JsError ''Failed to generate shareableId'')
   \<and> encryptId encrypt_empty ''a1'' = Inr []
   \<and> exchangePublicToken_try encrypt_empty ''tok_valid'' alice world0
       = exchangePublicToken_try_direct encrypt_empty ''tok_valid'' alice world0"
  using shareableId_null_branch_unreachable [of encrypt_empty "''tok_valid''" alice world0]
  by (simp add: exchangePublicToken_try_def exchangePublicToken_try_direct_def dwolla_defs
        sdk_defs action_defs scenario_defs Let_def)

section \<open>Transfers\<close>

text \<open>
  Claim C7. For every pair of funding-source references and amount, \<open>createTransfer\<close>
  constructs a transfer request whose source and destination links are the two given
  references and whose amount has the fixed currency code \<^verbatim>\<open>USD\<close> and the given amount
  as value, submits it to the payment network, and returns the reference of the new
  transfer (the \<^verbatim>\<open>location\<close> header of the answer); on failure it returns the absence
  signal \<^verbatim>\<open>undefined\<close>.
\<close>

theorem createTransfer_request:
  fixes E w sourceFundingSourceUrl destinationFundingSourceUrl amount
  defines "requestBody \<equiv>
     JObject [(''_links'',
                 JObject [(''source'', JObject [(''href'', JString sourceFundingSourceUrl)]),
                          (''destination'', JObject [(''href'', JString destinationFundingSourceUrl)])]),
              (''amount'', JObject [(''currency'', JString ''USD''),
                                    (''value'', JString amount)])]"
  defines "result \<equiv> createTransfer E sourceFundingSourceUrl destinationFundingSourceUrl amount w"
  shows "requests (snd result) = requests w @ [DwollaPost ''transfers'' requestBody]
       \<and> (\<forall>res url. dwolla_post E w ''transfers'' requestBody = Inr res
             \<and> header_location res = Some url \<and> url \<noteq> [] \<longrightarrow> fst result = Inr (Value url))
       \<and> (\<forall>msg. dwolla_post E w ''transfers'' requestBody = Inl msg
             \<longrightarrow> fst result = Inr Undefined)
       \<and> (\<forall>res. dwolla_post E w ''transfers'' requestBody = Inr res
             \<and> (header_location res = None \<or> header_location res = Some [])
             \<longrightarrow> fst result = Inr Undefined)"
  unfolding requestBody_def result_def
  by (auto simp: createTransfer_def dwollaClient_post_def action_defs Let_def split: sum.splits)

theorem createTransfer_request_witness:
  "fst (createTransfer scenario ''https://api.dwolla.com/funding-sources/fs1''
          ''https://api.dwolla.com/funding-sources/fs2'' ''25.00'' world0)
     = Inr (Value ''https://api.dwolla.com/transfers/t1'')
   \<and> requests (snd (createTransfer scenario ''https://api.dwolla.com/funding-sources/fs1''
          ''https://api.dwolla.com/funding-sources/fs2'' ''25.00'' world0))
     = [DwollaPost ''transfers''
         (JObject [(''_links'',
                     JObject [(''source'', JObject [(''href'', JString ''https://api.dwolla.com/funding-sources/fs1'')]),
                              (''destination'', JObject [(''href'', JString ''https://api.dwolla.com/funding-sources/fs2'')])]),
                   (''amount'', JObject [(''currency'', JString ''USD''),
                                         (''value'', JString ''25.00'')])])]
   \<and> fst (createTransfer funding_source_fails ''https://api.dwolla.com/funding-sources/fs1''
          ''https://api.dwolla.com/funding-sources/fs2'' ''25.00'' world0) = Inr Undefined"
  using createTransfer_request [where E = scenario and w = world0
          and sourceFundingSourceUrl = "''https://api.dwolla.com/funding-sources/fs1''"
          and destinationFundingSourceUrl = "''https://api.dwolla.com/funding-sources/fs2''"
          and amount = "''25.00''"]
        createTransfer_request [where E = funding_source_fails and w = world0
          and sourceFundingSourceUrl = "''https://api.dwolla.com/funding-sources/fs1''"
          and destinationFundingSourceUrl = "''https://api.dwolla.com/funding-sources/fs2''"
          and amount = "''25.00''"]
  by (simp add: scenario_defs)

section \<open>Queries on the bank collection\<close>

text \<open>
  Claim C5. For every account id, \<open>getBankByAccountId\<close> returns a record if and only if
  exactly one bank record exists for that account id; when zero or two or more records
  match, it returns the absence signal \<^verbatim>\<open>null\<close> and does not pick one.

  As stated the claim fails when the ledger cannot be reached: in the world of the
  scenario after linking, exactly one bank record has the account id \<^verbatim>\<open>a1\<close>, and with
  \<^verbatim>\<open>createAdminClient\<close> throwing the \<^verbatim>\<open>catch\<close> block returns \<^verbatim>\<open>null\<close>.
\<close>

theorem getBankByAccountId_null_despite_unique_record:
  "bank_collection world1 = [bank_a1]
   \<and> accountId bank_a1 = ''a1''
   \<and> fst (getBankByAccountId ledger_down ''a1'' world1) = Inr Null"
  by (simp add: getBankByAccountId_def sdk_defs action_defs world1_eq scenario_defs Let_def)

text \<open>
  Claim C5, amended. For every account id, when the ledger calls of the query
  (\<^verbatim>\<open>createAdminClient\<close> and \<^verbatim>\<open>listDocuments\<close>) answer, \<open>getBankByAccountId\<close> returns a
  record if and only if exactly one bank record exists for that account id; when zero
  or two or more records match, or when a ledger call throws, it returns the absence
  signal \<^verbatim>\<open>null\<close>; a record it returns is the only match, it never picks one of several.
\<close>

theorem getBankByAccountId_unique:
  fixes E w accountId'
  defines "found \<equiv> filter (\<lambda>b. accountId b = accountId') (bank_collection w)"
  defines "result \<equiv> fst (getBankByAccountId E accountId' w)"
  shows "(length found \<noteq> 1 \<longrightarrow> result = Inr Null)
       \<and> (\<forall>d. result = Inr (Value d) \<longrightarrow> found = [d])
       \<and> (result = Inr Null \<or> (\<exists>d. result = Inr (Value d)))
       \<and> (createAdminClient_throws E w = None
           \<and> listDocuments_throws E (record_request AppwriteCreateAdminClient w) = None
           \<longrightarrow> ((\<exists>d. result = Inr (Value d)) \<longleftrightarrow> length found = 1))
       \<and> (createAdminClient_throws E w \<noteq> None
           \<or> listDocuments_throws E (record_request AppwriteCreateAdminClient w) \<noteq> None
           \<longrightarrow> result = Inr Null)"
  unfolding found_def result_def
  by (auto simp: getBankByAccountId_def sdk_defs action_defs Let_def length_Suc_conv
      split: sum.splits option.splits list.splits)

theorem getBankByAccountId_unique_witness:
  "fst (getBankByAccountId scenario ''a1'' world1) = Inr (Value bank_a1)
   \<and> fst (getBankByAccountId scenario ''a1'' world0) = Inr Null
   \<and> fst (getBankByAccountId scenario ''a1'' world2) = Inr Null
   \<and> fst (getBankByAccountId ledger_down ''a1'' world1) = Inr Null"
  using getBankByAccountId_unique [where E = scenario and accountId' = "''a1''" and w = world1]
        getBankByAccountId_unique [where E = scenario and accountId' = "''a1''" and w = world0]
        getBankByAccountId_unique [where E = scenario and accountId' = "''a1''" and w = world2]
        getBankByAccountId_unique [where E = ledger_down and accountId' = "''a1''" and w = world1]
  by (auto simp: world1_eq scenario_defs record_request_def)

section \<open>Failures at the boundary of an operation\<close>

text \<open>
  Every operation modelled here is one \<^verbatim>\<open>try\<close> block whose \<^verbatim>\<open>catch\<close> returns \<^verbatim>\<open>null\<close>
  or \<^verbatim>\<open>undefined\<close>. (The session operations \<^verbatim>\<open>signIn\<close>, \<^verbatim>\<open>signUp\<close>, \<^verbatim>\<open>getLoggedInUser\<close>,
  \<^verbatim>\<open>logoutAccount\<close> and \<^verbatim>\<open>createLinkToken\<close>, which the specification leaves out of its
  scope, are not modelled.)
\<close>

lemma no_exception_escapes:
  "\<exists>r. fst (getUserInfo E userId' w) = Inr r"
  "\<exists>r. fst (getBanks E userId' w) = Inr r"
  "\<exists>r. fst (getBank E documentId w) = Inr r"
  "\<exists>r. fst (getBankByAccountId E accountId' w) = Inr r"
  "\<exists>r. fst (createBankAccount E props w) = Inr r"
  "\<exists>r. fst (exchangePublicToken E publicToken u w) = Inr r"
  "\<exists>r. fst (createFundingSource E options w) = Inr r"
  "\<exists>r. fst (createOnDemandAuthorization E w) = Inr r"
  "\<exists>r. fst (createDwollaCustomer E newCustomer w) = Inr r"
  "\<exists>r. fst (createTransfer E src dst amount w) = Inr r"
  "\<exists>r. fst (addFundingSource E c p b w) = Inr r"
  unfolding user_defs dwolla_defs by (rule try_catch_returns_total)+

lemma ledger_failure_absent:
  assumes "createAdminClient_throws E w \<noteq> None
         \<or> listDocuments_throws E (record_request AppwriteCreateAdminClient w) \<noteq> None"
  shows "fst (getUserInfo E userId' w) = Inr Null"
    and "fst (getBanks E userId' w) = Inr Null"
    and "fst (getBank E documentId w) = Inr Null"
    and "fst (getBankByAccountId E accountId' w) = Inr Null"
  using assms
  by (auto simp: user_defs createAdminClient_def listDocuments_bank_def listDocuments_user_def
      action_defs Let_def split: option.splits)

lemma write_failure_absent:
  assumes "createAdminClient_throws E w \<noteq> None
         \<or> createDocument_throws E (record_request AppwriteCreateAdminClient w) \<noteq> None"
  shows "fst (createBankAccount E props w) = Inr Null"
  using assms
  by (auto simp: createBankAccount_def createAdminClient_def database_createDocument_def
      action_defs Let_def split: option.splits)

lemma workflow_failure_absent:
  assumes "fst (exchangePublicToken_try E publicToken u w) = Inl e"
  shows "fst (exchangePublicToken E publicToken u w) = Inr Null"
  unfolding exchangePublicToken_def using assms by (rule try_catch_returns_absent)


text \<open>
  A request to the payment network that throws: the operation that sent it returns
  \<^verbatim>\<open>undefined\<close>. For \<open>addFundingSource\<close> the request is the creation of the funding
  source, sent after the authorization request.
\<close>

lemma dwolla_call_failure_absent:
  "dwolla_post E w (''customers/'' @ customerId options @ ''/funding-sources'')
       (JObject [(''name'', JString (fundingSourceName options)),
                 (''plaidToken'', JString (plaidToken options))]) = Inl msg
     \<Longrightarrow> fst (createFundingSource E options w) = Inr Undefined"
  "dwolla_post E w ''on-demand-authorizations'' JUndefined = Inl msg
     \<Longrightarrow> fst (createOnDemandAuthorization E w) = Inr JUndefined"
  "dwolla_post E w ''customers'' newCustomer = Inl msg
     \<Longrightarrow> fst (createDwollaCustomer E newCustomer w) = Inr Undefined"
  "dwolla_post E w ''transfers''
       (JObject [(''_links'',
                   JObject [(''source'', JObject [(''href'', JString src)]),
                            (''destination'', JObject [(''href'', JString dst)])]),
                 (''amount'', JObject [(''currency'', JString ''USD''),
                                       (''value'', JString amount)])]) = Inl msg
     \<Longrightarrow> fst (createTransfer E src dst amount w) = Inr Undefined"
  "dwolla_post E (record_request (DwollaPost ''on-demand-authorizations'' JUndefined) w)
       (''customers/'' @ c @ ''/funding-sources'')
       (JObject [(''name'', JString b), (''plaidToken'', JString p)]) = Inl msg
     \<Longrightarrow> fst (addFundingSource E c p b w) = Inr Undefined"
  by (auto simp: dwolla_defs dwollaClient_post_def action_defs Let_def split: sum.splits)

text \<open>
  A call inside the \<^verbatim>\<open>try\<close> block of \<open>exchangePublicToken\<close> that throws (the token
  exchange, the account retrieval, the creation of the processor token, \<^verbatim>\<open>encryptId\<close>):
  the operation returns \<^verbatim>\<open>null\<close>.
\<close>

lemma exchange_call_failure_absent:
  assumes "itemPublicTokenExchange E w publicToken = Inl msg"
  shows "fst (exchangePublicToken E publicToken u w) = Inr Null"
proof (rule workflow_failure_absent)
  show "fst (exchangePublicToken_try E publicToken u w) = Inl (ServiceError msg)"
    using assms by (simp add: exchangePublicToken_try_def plaid_defs action_defs)
qed

lemma accounts_call_failure_absent:
  assumes "itemPublicTokenExchange E w publicToken = Inr response"
    and "accountsGet E (record_request (PlaidItemPublicTokenExchange publicToken) w)
           (access_token response) = Inl msg"
  shows "fst (exchangePublicToken E publicToken u w) = Inr Null"
proof (rule workflow_failure_absent)
  show "fst (exchangePublicToken_try E publicToken u w) = Inl (ServiceError msg)"
    using assms by (simp add: exchangePublicToken_try_def plaid_defs action_defs Let_def)
qed

lemma processor_call_failure_absent:
  assumes "itemPublicTokenExchange E w publicToken = Inr response"
    and "accountsGet E (record_request (PlaidItemPublicTokenExchange publicToken) w)
           (access_token response) = Inr (accountData # others)"
    and "account_id accountData \<noteq> []"
    and "processorTokenCreate E
           (record_request (PlaidAccountsGet (access_token response))
              (record_request (PlaidItemPublicTokenExchange publicToken) w))
           \<lparr>req_access_token = access_token response,
            req_account_id = account_id accountData, processor = ''dwolla''\<rparr> = Inl msg"
  shows "fst (exchangePublicToken E publicToken u w) = Inr Null"
proof (rule workflow_failure_absent)
  show "fst (exchangePublicToken_try E publicToken u w) = Inl (ServiceError msg)"
    using assms by (simp add: exchangePublicToken_try_def plaid_defs action_defs Let_def)
qed

lemma encryptId_failure_absent:
  assumes "itemPublicTokenExchange E w publicToken = Inr response"
    and "accountsGet E (record_request (PlaidItemPublicTokenExchange publicToken) w)
           (access_token response) = Inr (accountData # others)"
    and "account_id accountData \<noteq> []"
    and "processorTokenCreate E
           (record_request (PlaidAccountsGet (access_token response))
              (record_request (PlaidItemPublicTokenExchange publicToken) w))
           \<lparr>req_access_token = access_token response,
            req_account_id = account_id accountData, processor = ''dwolla''\<rparr>
           = Inr processorToken"
    and "addFundingSource E (dwollaCustomerId u) processorToken (name accountData)
           (record_request (PlaidProcessorTokenCreate
              \<lparr>req_access_token = access_token response,
               req_account_id = account_id accountData, processor = ''dwolla''\<rparr>)
            (record_request (PlaidAccountsGet (access_token response))
              (record_request (PlaidItemPublicTokenExchange publicToken) w)))
           = (Inr (Value url), w4)"
    and "url \<noteq> []"
    and "encryptId E (account_id accountData) = Inl msg"
  shows "fst (exchangePublicToken E publicToken u w) = Inr Null"
proof (rule workflow_failure_absent)
  show "fst (exchangePublicToken_try E publicToken u w) = Inl (ServiceError msg)"
    using assms by (simp add: exchangePublicToken_try_def plaid_defs action_defs Let_def)
qed

lemma no_record_absent:
  "filter (\<lambda>d. user_userId d = userId') (user_collection w) = []
     \<Longrightarrow> fst (getUserInfo E userId' w) = Inr Null"
  "filter (\<lambda>d. bank_dollar_id d = documentId) (bank_collection w) = []
     \<Longrightarrow> fst (getBank E documentId w) = Inr Null"
  "filter (\<lambda>d. accountId d = accountId') (bank_collection w) = []
     \<Longrightarrow> fst (getBankByAccountId E accountId' w) = Inr Null"
  by (auto simp: user_defs sdk_defs action_defs Let_def split: option.splits)

text \<open>
  Claim C9. For every input and every internal failure, each operation reports the
  failure to its immediate caller as an absence signal (\<^verbatim>\<open>null\<close> or \<^verbatim>\<open>undefined\<close>) and
  never lets an exception escape; consequently the read operations return the same
  \<^verbatim>\<open>null\<close> for "no matching record" and for an internal error, so that callers cannot
  tell absence from failure.

  As stated the claim fails for the read operation \<open>getBanks\<close>, which answers "no
  matching record" with the empty list and an internal error with \<^verbatim>\<open>null\<close>.
\<close>

theorem getBanks_tells_absence_from_failure:
  "fst (getBanks scenario ''u2'' world1) = Inr (Value [])
   \<and> fst (getBanks ledger_down ''u2'' world1) = Inr Null"
  by (simp add: getBanks_def sdk_defs action_defs world1_eq scenario_defs Let_def)


text \<open>
  Claim C9, amended. For every input and every internal failure (an exception raised
  inside the operation's \<^verbatim>\<open>try\<close> block), each operation reports the failure to its
  immediate caller as an absence signal and never lets an exception escape; the
  read operations that return one record (\<open>getUserInfo\<close>, \<open>getBank\<close>,
  \<open>getBankByAccountId\<close>) return the same \<^verbatim>\<open>null\<close> for "no matching record" and for an
  internal error.
\<close>


theorem failures_become_absence:
  fixes E w
  defines "w1 \<equiv> record_request AppwriteCreateAdminClient w"
  shows
   "((\<exists>r. fst (getUserInfo E userId' w) = Inr r)
      \<and> (\<exists>r. fst (getBanks E userId' w) = Inr r)
      \<and> (\<exists>r. fst (getBank E documentId w) = Inr r)
      \<and> (\<exists>r. fst (getBankByAccountId E accountId' w) = Inr r)
      \<and> (\<exists>r. fst (createBankAccount E props w) = Inr r)
      \<and> (\<exists>r. fst (exchangePublicToken E publicToken u w) = Inr r)
      \<and> (\<exists>r. fst (createFundingSource E options w) = Inr r)
      \<and> (\<exists>r. fst (createOnDemandAuthorization E w) = Inr r)
      \<and> (\<exists>r. fst (createDwollaCustomer E newCustomer w) = Inr r)
      \<and> (\<exists>r. fst (createTransfer E src dst amount w) = Inr r)
      \<and> (\<exists>r. fst (addFundingSource E c p b w) = Inr r))
    \<and> (createAdminClient_throws E w \<noteq> None \<or> listDocuments_throws E w1 \<noteq> None
         \<longrightarrow> fst (getUserInfo E userId' w) = Inr Null
           \<and> fst (getBanks E userId' w) = Inr Null
           \<and> fst (getBank E documentId w) = Inr Null
           \<and> fst (getBankByAccountId E accountId' w) = Inr Null)
    \<and> (createAdminClient_throws E w \<noteq> None \<or> createDocument_throws E w1 \<noteq> None
         \<longrightarrow> fst (createBankAccount E props w) = Inr Null)
    \<and> (\<forall>e. fst (exchangePublicToken_try E publicToken u w) = Inl e
         \<longrightarrow> fst (exchangePublicToken E publicToken u w) = Inr Null)
    \<and> (\<forall>msg. itemPublicTokenExchange E w publicToken = Inl msg
         \<longrightarrow> fst (exchangePublicToken E publicToken u w) = Inr Null)
    \<and> (\<forall>response msg.
           itemPublicTokenExchange E w publicToken = Inr response
         \<and> accountsGet E (record_request (PlaidItemPublicTokenExchange publicToken) w) (access_token response) = Inl msg
         \<longrightarrow> fst (exchangePublicToken E publicToken u w) = Inr Null)
    \<and> (\<forall>response accountData others msg.
           itemPublicTokenExchange E w publicToken = Inr response
         \<and> accountsGet E (record_request (PlaidItemPublicTokenExchange publicToken) w) (access_token response)
             = Inr (accountData # others)
         \<and> account_id accountData \<noteq> []
         \<and> processorTokenCreate E (record_request (PlaidAccountsGet (access_token response)) (record_request (PlaidItemPublicTokenExchange publicToken) w))
             \<lparr>req_access_token = access_token response, req_account_id = account_id accountData, processor = ''dwolla''\<rparr> = Inl msg
         \<longrightarrow> fst (exchangePublicToken E publicToken u w) = Inr Null)
    \<and> (\<forall>response accountData others processorToken url w4 msg.
           itemPublicTokenExchange E w publicToken = Inr response
         \<and> accountsGet E (record_request (PlaidItemPublicTokenExchange publicToken) w) (access_token response)
             = Inr (accountData # others)
         \<and> account_id accountData \<noteq> []
         \<and> processorTokenCreate E (record_request (PlaidAccountsGet (access_token response)) (record_request (PlaidItemPublicTokenExchange publicToken) w))
             \<lparr>req_access_token = access_token response, req_account_id = account_id accountData, processor = ''dwolla''\<rparr> = Inr processorToken
         \<and> addFundingSource E (dwollaCustomerId u) processorToken (name accountData)
             (record_request (PlaidProcessorTokenCreate \<lparr>req_access_token = access_token response, req_account_id = account_id accountData, processor = ''dwolla''\<rparr>) (record_request (PlaidAccountsGet (access_token response)) (record_request (PlaidItemPublicTokenExchange publicToken) w))) = (Inr (Value url), w4)
         \<and> url \<noteq> []
         \<and> encryptId E (account_id accountData) = Inl msg
         \<longrightarrow> fst (exchangePublicToken E publicToken u w) = Inr Null)
    \<and> (\<forall>msg. dwolla_post E w (''customers/'' @ customerId options @ ''/funding-sources'')
               (JObject [(''name'', JString (fundingSourceName options)),
                         (''plaidToken'', JString (plaidToken options))]) = Inl msg
         \<longrightarrow> fst (createFundingSource E options w) = Inr Undefined)
    \<and> (\<forall>msg. dwolla_post E w ''on-demand-authorizations'' JUndefined = Inl msg
         \<longrightarrow> fst (createOnDemandAuthorization E w) = Inr JUndefined)
    \<and> (\<forall>msg. dwolla_post E w ''customers'' newCustomer = Inl msg
         \<longrightarrow> fst (createDwollaCustomer E newCustomer w) = Inr Undefined)
    \<and> (\<forall>msg. dwolla_post E w ''transfers''
               (JObject [(''_links'',
                           JObject [(''source'', JObject [(''href'', JString src)]),
                                    (''destination'', JObject [(''href'', JString dst)])]),
                         (''amount'', JObject [(''currency'', JString ''USD''),
                                               (''value'', JString amount)])]) = Inl msg
         \<longrightarrow> fst (createTransfer E src dst amount w) = Inr Undefined)
    \<and> (\<forall>msg. dwolla_post E (record_request (DwollaPost ''on-demand-authorizations'' JUndefined) w)
               (''customers/'' @ c @ ''/funding-sources'')
               (JObject [(''name'', JString b), (''plaidToken'', JString p)]) = Inl msg
         \<longrightarrow> fst (addFundingSource E c p b w) = Inr Undefined)
    \<and> (filter (\<lambda>d. user_userId d = userId') (user_collection w) = []
         \<longrightarrow> fst (getUserInfo E userId' w) = Inr Null)
    \<and> (filter (\<lambda>d. bank_dollar_id d = documentId) (bank_collection w) = []
         \<longrightarrow> fst (getBank E documentId w) = Inr Null)
    \<and> (filter (\<lambda>d. accountId d = accountId') (bank_collection w) = []
         \<longrightarrow> fst (getBankByAccountId E accountId' w) = Inr Null)"
proof -
  have reads: "createAdminClient_throws E w \<noteq> None \<or> listDocuments_throws E w1 \<noteq> None
         \<longrightarrow> fst (getUserInfo E userId' w) = Inr Null
           \<and> fst (getBanks E userId' w) = Inr Null
           \<and> fst (getBank E documentId w) = Inr Null
           \<and> fst (getBankByAccountId E accountId' w) = Inr Null"
    unfolding w1_def using ledger_failure_absent by blast
  have store: "createAdminClient_throws E w \<noteq> None \<or> createDocument_throws E w1 \<noteq> None
         \<longrightarrow> fst (createBankAccount E props w) = Inr Null"
    unfolding w1_def using write_failure_absent by blast
  have link: "\<forall>e. fst (exchangePublicToken_try E publicToken u w) = Inl e
         \<longrightarrow> fst (exchangePublicToken E publicToken u w) = Inr Null"
    using workflow_failure_absent by blast
  have exchange: "\<forall>msg. itemPublicTokenExchange E w publicToken = Inl msg
         \<longrightarrow> fst (exchangePublicToken E publicToken u w) = Inr Null"
    using exchange_call_failure_absent by blast
  have accounts: "\<forall>response msg.
           itemPublicTokenExchange E w publicToken = Inr response
         \<and> accountsGet E (record_request (PlaidItemPublicTokenExchange publicToken) w) (access_token response) = Inl msg
         \<longrightarrow> fst (exchangePublicToken E publicToken u w) = Inr Null"
    using accounts_call_failure_absent by blast
  have processor: "\<forall>response accountData others msg.
           itemPublicTokenExchange E w publicToken = Inr response
         \<and> accountsGet E (record_request (PlaidItemPublicTokenExchange publicToken) w) (access_token response)
             = Inr (accountData # others)
         \<and> account_id accountData \<noteq> []
         \<and> processorTokenCreate E (record_request (PlaidAccountsGet (access_token response)) (record_request (PlaidItemPublicTokenExchange publicToken) w))
             \<lparr>req_access_token = access_token response, req_account_id = account_id accountData, processor = ''dwolla''\<rparr> = Inl msg
         \<longrightarrow> fst (exchangePublicToken E publicToken u w) = Inr Null"
    using processor_call_failure_absent by blast
  have encrypt: "\<forall>response accountData others processorToken url w4 msg.
           itemPublicTokenExchange E w publicToken = Inr response
         \<and> accountsGet E (record_request (PlaidItemPublicTokenExchange publicToken) w) (access_token response)
             = Inr (accountData # others)
         \<and> account_id accountData \<noteq> []
         \<and> processorTokenCreate E (record_request (PlaidAccountsGet (access_token response)) (record_request (PlaidItemPublicTokenExchange publicToken) w))
             \<lparr>req_access_token = access_token response, req_account_id = account_id accountData, processor = ''dwolla''\<rparr> = Inr processorToken
         \<and> addFundingSource E (dwollaCustomerId u) processorToken (name accountData)
             (record_request (PlaidProcessorTokenCreate \<lparr>req_access_token = access_token response, req_account_id = account_id accountData, processor = ''dwolla''\<rparr>) (record_request (PlaidAccountsGet (access_token response)) (record_request (PlaidItemPublicTokenExchange publicToken) w))) = (Inr (Value url), w4)
         \<and> url \<noteq> []
         \<and> encryptId E (account_id accountData) = Inl msg
         \<longrightarrow> fst (exchangePublicToken E publicToken u w) = Inr Null"
    using encryptId_failure_absent by blast
  have funding: "\<forall>msg. dwolla_post E w (''customers/'' @ customerId options @ ''/funding-sources'')
               (JObject [(''name'', JString (fundingSourceName options)),
                         (''plaidToken'', JString (plaidToken options))]) = Inl msg
         \<longrightarrow> fst (createFundingSource E options w) = Inr Undefined"
    using dwolla_call_failure_absent(1) by blast
  have authorization: "\<forall>msg. dwolla_post E w ''on-demand-authorizations'' JUndefined = Inl msg
         \<longrightarrow> fst (createOnDemandAuthorization E w) = Inr JUndefined"
    using dwolla_call_failure_absent(2) by blast
  have customer: "\<forall>msg. dwolla_post E w ''customers'' newCustomer = Inl msg
         \<longrightarrow> fst (createDwollaCustomer E newCustomer w) = Inr Undefined"
    using dwolla_call_failure_absent(3) by blast
  have transfer: "\<forall>msg. dwolla_post E w ''transfers''
               (JObject [(''_links'',
                           JObject [(''source'', JObject [(''href'', JString src)]),
                                    (''destination'', JObject [(''href'', JString dst)])]),
                         (''amount'', JObject [(''currency'', JString ''USD''),
                                               (''value'', JString amount)])]) = Inl msg
         \<longrightarrow> fst (createTransfer E src dst amount w) = Inr Undefined"
    using dwolla_call_failure_absent(4) by blast
  have provision: "\<forall>msg. dwolla_post E (record_request (DwollaPost ''on-demand-authorizations'' JUndefined) w)
               (''customers/'' @ c @ ''/funding-sources'')
               (JObject [(''name'', JString b), (''plaidToken'', JString p)]) = Inl msg
         \<longrightarrow> fst (addFundingSource E c p b w) = Inr Undefined"
    using dwolla_call_failure_absent(5) by blast
  have no_user: "filter (\<lambda>d. user_userId d = userId') (user_collection w) = []
         \<longrightarrow> fst (getUserInfo E userId' w) = Inr Null"
    using no_record_absent(1) by blast
  have no_bank: "filter (\<lambda>d. bank_dollar_id d = documentId) (bank_collection w) = []
         \<longrightarrow> fst (getBank E documentId w) = Inr Null"
    using no_record_absent(2) by blast
  have no_account: "filter (\<lambda>d. accountId d = accountId') (bank_collection w) = []
         \<longrightarrow> fst (getBankByAccountId E accountId' w) = Inr Null"
    using no_record_absent(3) by blast
  from no_exception_escapes reads store link exchange accounts processor encrypt funding authorization customer transfer provision no_user no_bank no_account
  show ?thesis
    by (intro conjI) assumption+
qed

theorem failures_become_absence_witness:
  "fst (getBankByAccountId ledger_down ''a1'' world1) = Inr Null
   \<and> fst (getBankByAccountId scenario ''a2'' world1) = Inr Null
   \<and> fst (getUserInfo ledger_down ''auth_u1'' world1) = Inr Null
   \<and> fst (getUserInfo scenario ''auth_u2'' world1) = Inr Null
   \<and> fst (getBank ledger_down ''doc_1'' world1) = Inr Null
   \<and> fst (getBank scenario ''doc_2'' world1) = Inr Null
   \<and> fst (getBankByAccountId scenario ''a1'' world1) = Inr (Value bank_a1)
   \<and> fst (getUserInfo scenario ''auth_u1'' world1) = Inr (Value alice)
   \<and> fst (getBank scenario ''doc_1'' world1) = Inr (Value bank_a1)
   \<and> fst (createBankAccount ledger_write_fails
        \<lparr>userId = ''u1'', bankId = ''item_1'', accountId = ''a1'', accessToken = ''acc_1'',
         fundingSourceUrl = ''https://api.dwolla.com/funding-sources/fs1'',
         shareableId = ''enc:a1''\<rparr> world0) = Inr Null
   \<and> fst (exchangePublicToken no_accounts ''tok_valid'' alice world0) = Inr Null
   \<and> fst (createTransfer dwolla_down ''https://api.dwolla.com/funding-sources/fs1''
          ''https://api.dwolla.com/funding-sources/fs2'' ''25.00'' world0) = Inr Undefined
   \<and> fst (createDwollaCustomer dwolla_down (JObject [(''firstName'', JString ''Alice'')]) world0)
       = Inr Undefined
   \<and> fst (createFundingSource funding_source_fails
        \<lparr>customerId = ''cust_1'', fundingSourceName = ''Checking'', plaidToken = ''proc_1'',
         opt_links = JUndefined\<rparr> world0) = Inr Undefined
   \<and> fst (addFundingSource funding_source_fails ''cust_1'' ''proc_1'' ''Checking'' world0)
       = Inr Undefined
   \<and> fst (createOnDemandAuthorization authorization_fails world0) = Inr JUndefined
   \<and> fst (exchangePublicToken scenario ''tok_valid'' alice world1) = Inr Null
   \<and> fst (exchangePublicToken accounts_down ''tok_valid'' alice world0) = Inr Null
   \<and> fst (exchangePublicToken processor_down ''tok_valid'' alice world0) = Inr Null
   \<and> fst (exchangePublicToken encrypt_throws ''tok_valid'' alice world0) = Inr Null"
proof -
  let ?response = "\<lparr>access_token = ''acc_1'', item_id = ''item_1''\<rparr>"
  let ?accountData = "\<lparr>account_id = ''a1'', name = ''Checking''\<rparr>"
  let ?fs1 = "''https://api.dwolla.com/funding-sources/fs1''"
  let ?fs2 = "''https://api.dwolla.com/funding-sources/fs2''"
  have down: "createAdminClient_throws ledger_down world1 \<noteq> None
            \<or> listDocuments_throws ledger_down (record_request AppwriteCreateAdminClient world1) \<noteq> None"
    by (simp add: scenario_defs)
  from failures_become_absence
        [where E = ledger_down and w = world1 and accountId' = "''a1''" and userId' = "''auth_u1''" and documentId = "''doc_1''", THEN conjunct2, THEN conjunct1] down
  have 1: "fst (getBankByAccountId ledger_down ''a1'' world1) = Inr Null"
       "fst (getUserInfo ledger_down ''auth_u1'' world1) = Inr Null"
       "fst (getBank ledger_down ''doc_1'' world1) = Inr Null"
    by blast+
  have none: "filter (\<lambda>d. user_userId d = ''auth_u2'') (user_collection world1) = []"
    "filter (\<lambda>d. bank_dollar_id d = ''doc_2'') (bank_collection world1) = []"
    "filter (\<lambda>d. accountId d = ''a2'') (bank_collection world1) = []"
    by (simp_all add: world1_eq scenario_defs)
  from failures_become_absence
        [where E = scenario and w = world1 and accountId' = "''a2''" and userId' = "''auth_u2''" and documentId = "''doc_2''", THEN conjunct2, THEN conjunct2, THEN conjunct2, THEN conjunct2,
          THEN conjunct2, THEN conjunct2, THEN conjunct2, THEN conjunct2, THEN conjunct2,
          THEN conjunct2, THEN conjunct2, THEN conjunct2, THEN conjunct2, THEN conjunct1] none(1)
  have 2: "fst (getUserInfo scenario ''auth_u2'' world1) = Inr Null"
    by blast
  from failures_become_absence
        [where E = scenario and w = world1 and accountId' = "''a2''" and userId' = "''auth_u2''" and documentId = "''doc_2''", THEN conjunct2, THEN conjunct2, THEN conjunct2, THEN conjunct2,
          THEN conjunct2, THEN conjunct2, THEN conjunct2, THEN conjunct2, THEN conjunct2,
          THEN conjunct2, THEN conjunct2, THEN conjunct2, THEN conjunct2, THEN conjunct2,
          THEN conjunct1] none(2)
  have 16: "fst (getBank scenario ''doc_2'' world1) = Inr Null"
    by blast
  from failures_become_absence
        [where E = scenario and w = world1 and accountId' = "''a2''" and userId' = "''auth_u2''" and documentId = "''doc_2''", THEN conjunct2, THEN conjunct2, THEN conjunct2, THEN conjunct2,
          THEN conjunct2, THEN conjunct2, THEN conjunct2, THEN conjunct2, THEN conjunct2,
          THEN conjunct2, THEN conjunct2, THEN conjunct2, THEN conjunct2, THEN conjunct2,
          THEN conjunct2] none(3)
  have 17: "fst (getBankByAccountId scenario ''a2'' world1) = Inr Null"
    by blast
  have 3: "fst (getBankByAccountId scenario ''a1'' world1) = Inr (Value bank_a1)"
    "fst (getUserInfo scenario ''auth_u1'' world1) = Inr (Value alice)"
    "fst (getBank scenario ''doc_1'' world1) = Inr (Value bank_a1)"
    by (simp_all add: user_defs sdk_defs action_defs world1_eq scenario_defs Let_def)
  let ?props = "\<lparr>userId = ''u1'', bankId = ''item_1'', accountId = ''a1'', accessToken = ''acc_1'',
         fundingSourceUrl = ''https://api.dwolla.com/funding-sources/fs1'',
         shareableId = ''enc:a1''\<rparr>"
  have stored: "createAdminClient_throws ledger_write_fails world0 \<noteq> None
            \<or> createDocument_throws ledger_write_fails
                 (record_request AppwriteCreateAdminClient world0) \<noteq> None"
    by (simp add: scenario_defs)
  from failures_become_absence
        [where E = ledger_write_fails and w = world0 and props = ?props, THEN conjunct2, THEN conjunct2, THEN conjunct1] stored
  have 4: "fst (createBankAccount ledger_write_fails ?props world0) = Inr Null"
    by blast
  have thrown: "fst (exchangePublicToken_try no_accounts ''tok_valid'' alice world0)
                  = Inl (JsError ''Invalid account data received from Plaid.'')"
    by (simp add: exchangePublicToken_try_def plaid_defs action_defs scenario_defs Let_def)
  from failures_become_absence
        [where E = no_accounts and w = world0 and publicToken = "''tok_valid''" and u = alice, THEN conjunct2, THEN conjunct2, THEN conjunct2, THEN conjunct1] thrown
  have 5: "fst (exchangePublicToken no_accounts ''tok_valid'' alice world0) = Inr Null"
    by blast
  have t6: "dwolla_post dwolla_down world0 ''transfers''
               (JObject [(''_links'',
                           JObject [(''source'', JObject [(''href'', JString ?fs1)]),
                                    (''destination'', JObject [(''href'', JString ?fs2)])]),
                         (''amount'', JObject [(''currency'', JString ''USD''),
                                               (''value'', JString ''25.00'')])])
              = Inl ''ServiceUnavailable''"
    and p6: "dwolla_post dwolla_down
               (record_request (DwollaPost ''on-demand-authorizations'' JUndefined) world0)
               (''customers/'' @ ''cust_1'' @ ''/funding-sources'')
               (JObject [(''name'', JString ''Checking''), (''plaidToken'', JString ''proc_1'')])
              = Inl ''ServiceUnavailable''"
    and c6: "dwolla_post dwolla_down world0 ''customers''
               (JObject [(''firstName'', JString ''Alice'')]) = Inl ''ServiceUnavailable''"
    by (simp_all add: scenario_defs)
  from failures_become_absence
        [where E = dwolla_down and w = world0 and src = ?fs1 and dst = ?fs2 and amount = "''25.00''" and c = "''cust_1''" and p = "''proc_1''" and b = "''Checking''" and newCustomer = "JObject [(''firstName'', JString ''Alice'')]", THEN conjunct2, THEN conjunct2, THEN conjunct2, THEN conjunct2,
          THEN conjunct2, THEN conjunct2, THEN conjunct2, THEN conjunct2, THEN conjunct2,
          THEN conjunct2, THEN conjunct2, THEN conjunct1] t6
  have 6: "fst (createTransfer dwolla_down ?fs1 ?fs2 ''25.00'' world0) = Inr Undefined"
    by blast
  from failures_become_absence
        [where E = dwolla_down and w = world0 and src = ?fs1 and dst = ?fs2 and amount = "''25.00''" and c = "''cust_1''" and p = "''proc_1''" and b = "''Checking''" and newCustomer = "JObject [(''firstName'', JString ''Alice'')]", THEN conjunct2, THEN conjunct2, THEN conjunct2, THEN conjunct2,
          THEN conjunct2, THEN conjunct2, THEN conjunct2, THEN conjunct2, THEN conjunct2,
          THEN conjunct2, THEN conjunct2, THEN conjunct2, THEN conjunct1] p6
  have 7: "fst (addFundingSource dwolla_down ''cust_1'' ''proc_1'' ''Checking'' world0)
             = Inr Undefined"
    by blast
  from failures_become_absence
        [where E = dwolla_down and w = world0 and src = ?fs1 and dst = ?fs2 and amount = "''25.00''" and c = "''cust_1''" and p = "''proc_1''" and b = "''Checking''" and newCustomer = "JObject [(''firstName'', JString ''Alice'')]", THEN conjunct2, THEN conjunct2, THEN conjunct2, THEN conjunct2,
          THEN conjunct2, THEN conjunct2, THEN conjunct2, THEN conjunct2, THEN conjunct2,
          THEN conjunct2, THEN conjunct1] c6
  have 8: "fst (createDwollaCustomer dwolla_down (JObject [(''firstName'', JString ''Alice'')])
             world0) = Inr Undefined"
    by blast
  let ?options = "\<lparr>customerId = ''cust_1'', fundingSourceName = ''Checking'',
                   plaidToken = ''proc_1'', opt_links = JUndefined\<rparr>"
  have f9: "dwolla_post funding_source_fails world0
               (''customers/'' @ customerId ?options @ ''/funding-sources'')
               (JObject [(''name'', JString (fundingSourceName ?options)),
                         (''plaidToken'', JString (plaidToken ?options))]) = Inl ''ValidationError''"
    and p9: "dwolla_post funding_source_fails
               (record_request (DwollaPost ''on-demand-authorizations'' JUndefined) world0)
               (''customers/'' @ ''cust_1'' @ ''/funding-sources'')
               (JObject [(''name'', JString ''Checking''), (''plaidToken'', JString ''proc_1'')])
              = Inl ''ValidationError''"
    by (simp_all add: scenario_defs)
  from failures_become_absence
        [where E = funding_source_fails and w = world0 and options = ?options and c = "''cust_1''" and p = "''proc_1''" and b = "''Checking''", THEN conjunct2, THEN conjunct2, THEN conjunct2, THEN conjunct2,
          THEN conjunct2, THEN conjunct2, THEN conjunct2, THEN conjunct2, THEN conjunct1] f9
  have 9: "fst (createFundingSource funding_source_fails ?options world0) = Inr Undefined"
    by blast
  from failures_become_absence
        [where E = funding_source_fails and w = world0 and options = ?options and c = "''cust_1''" and p = "''proc_1''" and b = "''Checking''", THEN conjunct2, THEN conjunct2, THEN conjunct2, THEN conjunct2,
          THEN conjunct2, THEN conjunct2, THEN conjunct2, THEN conjunct2, THEN conjunct2,
          THEN conjunct2, THEN conjunct2, THEN conjunct2, THEN conjunct1] p9
  have 10: "fst (addFundingSource funding_source_fails ''cust_1'' ''proc_1'' ''Checking'' world0)
              = Inr Undefined"
    by blast
  have a11: "dwolla_post authorization_fails world0 ''on-demand-authorizations'' JUndefined
               = Inl ''Unauthorized''"
    by (simp add: scenario_defs)
  from failures_become_absence
        [where E = authorization_fails and w = world0, THEN conjunct2, THEN conjunct2, THEN conjunct2, THEN conjunct2,
          THEN conjunct2, THEN conjunct2, THEN conjunct2, THEN conjunct2, THEN conjunct2,
          THEN conjunct1] a11
  have 11: "fst (createOnDemandAuthorization authorization_fails world0) = Inr JUndefined"
    by blast
  have e12: "itemPublicTokenExchange scenario world1 ''tok_valid'' = Inl ''INVALID_PUBLIC_TOKEN''"
    by (simp add: world1_eq scenario_def)
  from failures_become_absence
        [where E = scenario and w = world1 and publicToken = "''tok_valid''" and u = alice, THEN conjunct2, THEN conjunct2, THEN conjunct2, THEN conjunct2,
          THEN conjunct1] e12
  have 12: "fst (exchangePublicToken scenario ''tok_valid'' alice world1) = Inr Null"
    by blast
  have e13: "itemPublicTokenExchange accounts_down world0 ''tok_valid'' = Inr ?response"
    and a13: "accountsGet accounts_down
                (record_request (PlaidItemPublicTokenExchange ''tok_valid'') world0)
                (access_token ?response) = Inl ''INTERNAL_SERVER_ERROR''"
    by (simp_all add: scenario_defs)
  from failures_become_absence
        [where E = accounts_down and w = world0 and publicToken = "''tok_valid''" and u = alice, THEN conjunct2, THEN conjunct2, THEN conjunct2, THEN conjunct2,
          THEN conjunct2, THEN conjunct1] e13 a13
  have 13: "fst (exchangePublicToken accounts_down ''tok_valid'' alice world0) = Inr Null"
    by blast
  have e14: "itemPublicTokenExchange processor_down world0 ''tok_valid'' = Inr ?response"
    and a14: "accountsGet processor_down
                (record_request (PlaidItemPublicTokenExchange ''tok_valid'') world0)
                (access_token ?response) = Inr (?accountData # [])"
    and i14: "account_id ?accountData \<noteq> []"
    and p14: "processorTokenCreate processor_down
                (record_request (PlaidAccountsGet (access_token ?response))
                   (record_request (PlaidItemPublicTokenExchange ''tok_valid'') world0))
                \<lparr>req_access_token = access_token ?response,
                 req_account_id = account_id ?accountData, processor = ''dwolla''\<rparr>
                = Inl ''INVALID_PRODUCT''"
    by (simp_all add: scenario_defs)
  from failures_become_absence
        [where E = processor_down and w = world0 and publicToken = "''tok_valid''" and u = alice, THEN conjunct2, THEN conjunct2, THEN conjunct2, THEN conjunct2,
          THEN conjunct2, THEN conjunct2, THEN conjunct1] e14 a14 i14 p14
  have 14: "fst (exchangePublicToken processor_down ''tok_valid'' alice world0) = Inr Null"
    by blast
  let ?w3 = "record_request (PlaidProcessorTokenCreate
                \<lparr>req_access_token = access_token ?response,
                 req_account_id = account_id ?accountData, processor = ''dwolla''\<rparr>)
               (record_request (PlaidAccountsGet (access_token ?response))
                 (record_request (PlaidItemPublicTokenExchange ''tok_valid'') world0))"
  have e15: "itemPublicTokenExchange encrypt_throws world0 ''tok_valid'' = Inr ?response"
    and a15: "accountsGet encrypt_throws
                (record_request (PlaidItemPublicTokenExchange ''tok_valid'') world0)
                (access_token ?response) = Inr (?accountData # [])"
    and p15: "processorTokenCreate encrypt_throws
                (record_request (PlaidAccountsGet (access_token ?response))
                   (record_request (PlaidItemPublicTokenExchange ''tok_valid'') world0))
                \<lparr>req_access_token = access_token ?response,
                 req_account_id = account_id ?accountData, processor = ''dwolla''\<rparr>
                = Inr ''proc_1''"
    and u15: "?fs1 \<noteq> []"
    and x15: "encryptId encrypt_throws (account_id ?accountData) = Inl ''InvalidCharacterError''"
    by (simp_all add: scenario_defs)
  have f15: "addFundingSource encrypt_throws (dwollaCustomerId alice) ''proc_1''
               (name ?accountData) ?w3
             = (Inr (Value ?fs1),
                snd (addFundingSource encrypt_throws (dwollaCustomerId alice) ''proc_1''
                       (name ?accountData) ?w3))"
    by (simp add: dwolla_defs dwollaClient_post_def action_defs scenario_defs Let_def)
  from failures_become_absence
        [where E = encrypt_throws and w = world0 and publicToken = "''tok_valid''" and u = alice, THEN conjunct2, THEN conjunct2, THEN conjunct2, THEN conjunct2,
          THEN conjunct2, THEN conjunct2, THEN conjunct2, THEN conjunct1] e15 a15 i14 p15 f15 u15 x15
  have 15: "fst (exchangePublicToken encrypt_throws ''tok_valid'' alice world0) = Inr Null"
    by blast
  from 1 2 16 17 3 4 5 6 7 8 9 10 11 12 13 14 15 show ?thesis by simp
qed

end
